theory Spec2Isabelle
  imports Complex_Main
begin

section \<open>JavaScript values\<close>

text \<open>
  Coordinates and scalars are JavaScript numbers. They are modelled as exact reals:
  IEEE rounding, overflow and the sign of zero are not modelled, and every input
  coordinate is a finite number. Where the source divides, or calls a function that
  can leave the finite numbers, the result is a \<open>jsnum\<close>, which keeps
  \<open>NaN\<close> and the two infinities apart from the finite values.
  \<open>undefined\<close> is \<open>None\<close>.
\<close>

datatype jsnum = Finite real | NaN | PosInfinity | NegInfinity

datatype js_error = TypeError | ImageLoadError string

record point3D =
  px :: real
  py :: real
  pz :: real

section \<open>Array access, truthiness and Math\<close>

text \<open>
  \<^verbatim>\<open>a[i]\<close> on an array: \<open>undefined\<close> past the end and at a missing entry.
\<close>

definition js_nth :: "'a option list \<Rightarrow> nat \<Rightarrow> 'a option" where
  "js_nth a i = (if i < length a then a ! i else None)"

text \<open>
  \<^verbatim>\<open>a[i]\<close> where the array itself may be \<open>undefined\<close>. The source reads
  such an element only inside a \<^verbatim>\<open>try\<close> block and then reads a property of
  it, so both an \<open>undefined\<close> array and an \<open>undefined\<close> element end in
  the same \<^verbatim>\<open>catch\<close>: \<open>None\<close> is "this read makes the block throw".
\<close>

definition js_at :: "'a option list option \<Rightarrow> nat \<Rightarrow> 'a option" where
  "js_at a i = (case a of None \<Rightarrow> None | Some elems \<Rightarrow> js_nth elems i)"

text \<open>\<^verbatim>\<open>n || d\<close> for a number that may be \<open>undefined\<close>: 0 is falsy too.\<close>

definition num_or :: "real option \<Rightarrow> real \<Rightarrow> real" where
  "num_or n d = (case n of None \<Rightarrow> d | Some v \<Rightarrow> if v = 0 then d else v)"

definition nat_or :: "nat option \<Rightarrow> nat \<Rightarrow> nat" where
  "nat_or n d = (case n of None \<Rightarrow> d | Some v \<Rightarrow> if v = 0 then d else v)"

text \<open>A string that may be \<open>undefined\<close> is truthy when it is present and not empty.\<close>

definition truthy_str :: "string option \<Rightarrow> bool" where
  "truthy_str s = (case s of None \<Rightarrow> False | Some t \<Rightarrow> t \<noteq> [])"

text \<open>\<^verbatim>\<open>a / b\<close> for finite numbers, the divisor being a square root (never \<open>-0\<close>).\<close>

definition js_div :: "real \<Rightarrow> real \<Rightarrow> jsnum" where
  "js_div a b =
     (if b \<noteq> 0 then Finite (a / b)
      else if a = 0 then NaN
      else if 0 < a then PosInfinity else NegInfinity)"

text \<open>\<^verbatim>\<open>Math.atan2(y, x)\<close> on finite numbers.\<close>

definition atan2 :: "real \<Rightarrow> real \<Rightarrow> real" where
  "atan2 b a =
     (if 0 < a then arctan (b / a)
      else if a < 0 then (if 0 \<le> b then arctan (b / a) + pi else arctan (b / a) - pi)
      else if 0 < b then pi / 2
      else if b < 0 then - (pi / 2)
      else 0)"

fun js_atan2 :: "jsnum \<Rightarrow> jsnum \<Rightarrow> jsnum" where
  "js_atan2 (Finite b) (Finite a) = Finite (atan2 b a)"
| "js_atan2 NaN _ = NaN"
| "js_atan2 _ NaN = NaN"
| "js_atan2 (Finite b) PosInfinity = Finite 0"
| "js_atan2 (Finite b) NegInfinity = Finite (if 0 \<le> b then pi else - pi)"
| "js_atan2 PosInfinity (Finite a) = Finite (pi / 2)"
| "js_atan2 NegInfinity (Finite a) = Finite (- (pi / 2))"
| "js_atan2 PosInfinity PosInfinity = Finite (pi / 4)"
| "js_atan2 PosInfinity NegInfinity = Finite (3 * pi / 4)"
| "js_atan2 NegInfinity PosInfinity = Finite (- (pi / 4))"
| "js_atan2 NegInfinity NegInfinity = Finite (- (3 * pi / 4))"

text \<open>\<^verbatim>\<open>Math.acos\<close>: \<open>NaN\<close> outside \<open>[-1, 1]\<close>.\<close>

fun js_acos :: "jsnum \<Rightarrow> jsnum" where
  "js_acos (Finite r) = (if - 1 \<le> r \<and> r \<le> 1 then Finite (arccos r) else NaN)"
| "js_acos _ = NaN"

text \<open>\<^verbatim>\<open>n * c\<close> and \<^verbatim>\<open>n + c\<close> for a finite \<open>c\<close>.\<close>

fun js_times :: "jsnum \<Rightarrow> real \<Rightarrow> jsnum" where
  "js_times (Finite r) c = Finite (r * c)"
| "js_times NaN c = NaN"
| "js_times PosInfinity c =
     (if 0 < c then PosInfinity else if c < 0 then NegInfinity else NaN)"
| "js_times NegInfinity c =
     (if 0 < c then NegInfinity else if c < 0 then PosInfinity else NaN)"

fun js_plus :: "jsnum \<Rightarrow> real \<Rightarrow> jsnum" where
  "js_plus (Finite r) c = Finite (r + c)"
| "js_plus n c = n"

text \<open>Truthiness of a number: 0 and \<open>NaN\<close> are falsy.\<close>

fun js_truthy :: "jsnum \<Rightarrow> bool" where
  "js_truthy (Finite r) = (r \<noteq> 0)"
| "js_truthy NaN = False"
| "js_truthy _ = True"

definition is_finite :: "jsnum \<Rightarrow> bool" where
  "is_finite n = (case n of Finite r \<Rightarrow> True | _ \<Rightarrow> False)"

record jsvec =
  vx :: jsnum
  vy :: jsnum
  vz :: jsnum

section \<open>HandPoseDetector\<close>

text \<open>
  A raw hand landmark has \<open>x\<close> and \<open>y\<close>; \<open>z\<close> may be missing (the
  source reads it as \<^verbatim>\<open>z || 0\<close>). A prediction carries
  \<^verbatim>\<open>keypoints3D\<close> and \<^verbatim>\<open>keypoints\<close> (here \<open>keypoints2D\<close>),
  either of which may be \<open>undefined\<close>, and an array may have missing entries.
\<close>

record landmark =
  lx :: real
  ly :: real
  lz :: "real option"

record hand_prediction =
  keypoints3D :: "landmark option list option"
  keypoints2D :: "landmark option list option"
  handedness :: string
  score :: real

type_synonym keypoint_set = "string \<rightharpoonup> point3D"

definition z_or_0 :: "landmark \<Rightarrow> real" where
  "z_or_0 l = num_or (lz l) 0"

text \<open>\<^verbatim>\<open>prediction.keypoints3D || prediction.keypoints\<close>: an array is truthy, also when empty.\<close>

definition hand_landmarks :: "hand_prediction \<Rightarrow> landmark option list option" where
  "hand_landmarks prediction =
     (case keypoints3D prediction of Some a \<Rightarrow> Some a | None \<Rightarrow> keypoints2D prediction)"

definition handLandmarkNames :: "string list" where
  "handLandmarkNames =
     [''wrist'',
      ''thumb_cmc'', ''thumb_mcp'', ''thumb_ip'', ''thumb_tip'',
      ''index_finger_mcp'', ''index_finger_pip'', ''index_finger_dip'', ''index_finger_tip'',
      ''middle_finger_mcp'', ''middle_finger_pip'', ''middle_finger_dip'', ''middle_finger_tip'',
      ''ring_finger_mcp'', ''ring_finger_pip'', ''ring_finger_dip'', ''ring_finger_tip'',
      ''pinky_mcp'', ''pinky_pip'', ''pinky_dip'', ''pinky_tip'']"

text \<open>
  The loop \<^verbatim>\<open>for (let i = 0; i < landmarks.length; i++)\<close> of
  \<^verbatim>\<open>extractKeypoints\<close>, from index \<open>i\<close> over the elements that remain:
  a name is set when \<^verbatim>\<open>handLandmarkNames[i]\<close> and \<^verbatim>\<open>landmarks[i]\<close>
  are both there.
\<close>

fun name_landmarks :: "nat \<Rightarrow> landmark option list \<Rightarrow> keypoint_set \<Rightarrow> keypoint_set" where
  "name_landmarks i [] keypoints = keypoints"
| "name_landmarks i (l # rest) keypoints =
     name_landmarks (Suc i) rest
       (case l of
          None \<Rightarrow> keypoints
        | Some p \<Rightarrow>
            if i < length handLandmarkNames
            then keypoints(handLandmarkNames ! i \<mapsto> \<lparr> px = lx p, py = ly p, pz = z_or_0 p \<rparr>)
            else keypoints)"

definition add_ring_position :: "keypoint_set \<Rightarrow> keypoint_set" where
  "add_ring_position keypoints =
     (case (keypoints ''ring_finger_mcp'', keypoints ''ring_finger_pip'') of
        (Some mcp, Some pip) \<Rightarrow>
          keypoints(''ring_position'' \<mapsto>
            \<lparr> px = (px mcp + px pip) / 2,
              py = (py mcp + py pip) / 2,
              pz = (pz mcp + pz pip) / 2 \<rparr>)
      | _ \<Rightarrow> keypoints)"

definition add_bracelet_position :: "keypoint_set \<Rightarrow> keypoint_set" where
  "add_bracelet_position keypoints =
     (case keypoints ''wrist'' of
        Some wrist \<Rightarrow> keypoints(''bracelet_position'' \<mapsto> wrist)
      | None \<Rightarrow> keypoints)"

definition add_watch_position :: "keypoint_set \<Rightarrow> keypoint_set" where
  "add_watch_position keypoints =
     (case (keypoints ''wrist'', keypoints ''pinky_mcp'') of
        (Some wrist, Some pinky_mcp) \<Rightarrow>
          keypoints(''watch_position'' \<mapsto>
            \<lparr> px = px wrist * 0.8 + px pinky_mcp * 0.2,
              py = py wrist * 0.8 + py pinky_mcp * 0.2,
              pz = pz wrist * 0.8 + pz pinky_mcp * 0.2 \<rparr>)
      | _ \<Rightarrow> keypoints)"

text \<open>
  \<^verbatim>\<open>HandPoseDetector.extractKeypoints(prediction)\<close>. There is no
  \<^verbatim>\<open>try\<close> around it: with both arrays \<open>undefined\<close>,
  \<^verbatim>\<open>landmarks.length\<close> throws a \<open>TypeError\<close>.
\<close>

definition hand_extractKeypoints :: "hand_prediction \<Rightarrow> js_error + keypoint_set" where
  "hand_extractKeypoints prediction =
     (case hand_landmarks prediction of
        None \<Rightarrow> Inl TypeError
      | Some landmarks \<Rightarrow>
          Inr (add_watch_position (add_bracelet_position (add_ring_position
                 (name_landmarks 0 landmarks Map.empty)))))"

text \<open>The distance the source writes out with \<^verbatim>\<open>Math.sqrt\<close> and \<^verbatim>\<open>Math.pow\<close>, \<open>z\<close> read as \<^verbatim>\<open>z || 0\<close>.\<close>

definition landmark_distance :: "landmark \<Rightarrow> landmark \<Rightarrow> real" where
  "landmark_distance a b =
     sqrt ((lx a - lx b)\<^sup>2 + (ly a - ly b)\<^sup>2 + (z_or_0 a - z_or_0 b)\<^sup>2)"

record finger_segments =
  mcpToPip :: real
  pipToDip :: real
  dipToTip :: real

record finger_dimensions =
  fd_width :: real
  fd_length :: real
  fd_segments :: "finger_segments option"

text \<open>
  \<^verbatim>\<open>calculateFingerDimensions(landmarks, baseIndex)\<close>: the
  \<^verbatim>\<open>try\<close> block throws when one of the four joints is missing, and the
  \<^verbatim>\<open>catch\<close> returns zeros.
\<close>

definition calculateFingerDimensions ::
  "landmark option list option \<Rightarrow> nat \<Rightarrow> finger_dimensions" where
  "calculateFingerDimensions landmarks baseIndex =
     (case (js_at landmarks baseIndex, js_at landmarks (baseIndex + 1),
            js_at landmarks (baseIndex + 2), js_at landmarks (baseIndex + 3)) of
        (Some mcp, Some pip, Some dip, Some tip) \<Rightarrow>
          (let fingerLength = landmark_distance tip mcp;
               fingerWidth = fingerLength * 0.15
           in \<lparr> fd_width = fingerWidth,
                fd_length = fingerLength,
                fd_segments = Some \<lparr> mcpToPip = landmark_distance pip mcp,
                                      pipToDip = landmark_distance dip pip,
                                      dipToTip = landmark_distance tip dip \<rparr> \<rparr>)
      | _ \<Rightarrow>
          \<lparr> fd_width = 0, fd_length = 0,
            fd_segments = Some \<lparr> mcpToPip = 0, pipToDip = 0, dipToTip = 0 \<rparr> \<rparr>)"

record finger_measurements =
  fm_index :: finger_dimensions
  fm_middle :: finger_dimensions
  fm_ring :: finger_dimensions
  fm_pinky :: finger_dimensions

record hand_measurements =
  m_palmWidth :: real
  m_handLength :: real
  m_fingerMeasurements :: finger_measurements
  m_wristCircumference :: real
  m_aspectRatio :: jsnum

text \<open>The object the \<^verbatim>\<open>catch\<close> of \<^verbatim>\<open>calculateHandMeasurements\<close> returns.\<close>

definition default_measurements :: hand_measurements where
  "default_measurements =
     \<lparr> m_palmWidth = 0,
       m_handLength = 0,
       m_fingerMeasurements =
         \<lparr> fm_index = \<lparr> fd_width = 0, fd_length = 0, fd_segments = None \<rparr>,
           fm_middle = \<lparr> fd_width = 0, fd_length = 0, fd_segments = None \<rparr>,
           fm_ring = \<lparr> fd_width = 0, fd_length = 0, fd_segments = None \<rparr>,
           fm_pinky = \<lparr> fd_width = 0, fd_length = 0, fd_segments = None \<rparr> \<rparr>,
       m_wristCircumference = 0,
       m_aspectRatio = Finite 0 \<rparr>"

text \<open>
  The \<^verbatim>\<open>try\<close> block of \<^verbatim>\<open>calculateHandMeasurements\<close>:
  \<open>Inl TypeError\<close> when a property of a missing landmark is read.
\<close>

definition measurements_try :: "landmark option list option \<Rightarrow> js_error + hand_measurements" where
  "measurements_try landmarks =
     (case (js_at landmarks 17, js_at landmarks 5) of
        (Some pinkyMcp, Some indexMcp) \<Rightarrow>
          (let palmWidth = landmark_distance indexMcp pinkyMcp in
           case (js_at landmarks 0, js_at landmarks 12) of
             (Some wrist, Some middleTip) \<Rightarrow>
               (let handLength = landmark_distance middleTip wrist;
                    fingerMeasurements =
                      \<lparr> fm_index = calculateFingerDimensions landmarks 5,
                        fm_middle = calculateFingerDimensions landmarks 9,
                        fm_ring = calculateFingerDimensions landmarks 13,
                        fm_pinky = calculateFingerDimensions landmarks 17 \<rparr>;
                    wristCircumference = palmWidth * 2.5
                in Inr \<lparr> m_palmWidth = palmWidth,
                         m_handLength = handLength,
                         m_fingerMeasurements = fingerMeasurements,
                         m_wristCircumference = wristCircumference,
                         m_aspectRatio = js_div handLength palmWidth \<rparr>)
           | _ \<Rightarrow> Inl TypeError)
      | _ \<Rightarrow> Inl TypeError)"

definition calculateHandMeasurements :: "hand_prediction \<Rightarrow> hand_measurements" where
  "calculateHandMeasurements prediction =
     (case measurements_try (hand_landmarks prediction) of
        Inr measurements \<Rightarrow> measurements
      | Inl error \<Rightarrow> default_measurements)"

text \<open>\<^verbatim>\<open>normalizeVector(vector)\<close>: the zero vector is returned as it is, before any division.\<close>

definition normalizeVector :: "point3D \<Rightarrow> jsvec" where
  "normalizeVector v =
     (let magnitude = sqrt (px v * px v + py v * py v + pz v * pz v) in
      if magnitude = 0 then \<lparr> vx = Finite 0, vy = Finite 0, vz = Finite 0 \<rparr>
      else \<lparr> vx = js_div (px v) magnitude,
             vy = js_div (py v) magnitude,
             vz = js_div (pz v) magnitude \<rparr>)"

record hand_angles =
  pitch :: jsnum
  yaw :: jsnum
  roll :: jsnum

record hand_vectors =
  palmDirection :: jsvec
  fingerDirection :: jsvec
  palmNormal :: jsvec

record hand_orientation =
  angles :: hand_angles
  vectors :: hand_vectors

text \<open>The object the \<^verbatim>\<open>catch\<close> of \<^verbatim>\<open>calculateHandOrientation\<close> returns.\<close>

definition default_orientation :: hand_orientation where
  "default_orientation =
     \<lparr> angles = \<lparr> pitch = Finite 0, yaw = Finite 0, roll = Finite 0 \<rparr>,
       vectors =
         \<lparr> palmDirection = \<lparr> vx = Finite 0, vy = Finite 1, vz = Finite 0 \<rparr>,
           fingerDirection = \<lparr> vx = Finite 0, vy = Finite 1, vz = Finite 0 \<rparr>,
           palmNormal = \<lparr> vx = Finite 1, vy = Finite 0, vz = Finite 0 \<rparr> \<rparr> \<rparr>"

definition orientation_try :: "landmark option list option \<Rightarrow> js_error + hand_orientation" where
  "orientation_try landmarks =
     (case (js_at landmarks 0, js_at landmarks 9, js_at landmarks 12,
            js_at landmarks 5, js_at landmarks 17) of
        (Some wrist, Some middleMcp, Some middleTip, Some indexMcp, Some pinkyMcp) \<Rightarrow>
          (let palmDir = \<lparr> px = lx middleMcp - lx wrist,
                           py = ly middleMcp - ly wrist,
                           pz = z_or_0 middleMcp - z_or_0 wrist \<rparr>;
               fingerDir = \<lparr> px = lx middleTip - lx middleMcp,
                             py = ly middleTip - ly middleMcp,
                             pz = z_or_0 middleTip - z_or_0 middleMcp \<rparr>;
               palmWidth = \<lparr> px = lx pinkyMcp - lx indexMcp,
                             py = ly pinkyMcp - ly indexMcp,
                             pz = z_or_0 pinkyMcp - z_or_0 indexMcp \<rparr>;
               palmNorm = \<lparr> px = py palmDir * pz palmWidth - pz palmDir * py palmWidth,
                            py = pz palmDir * px palmWidth - px palmDir * pz palmWidth,
                            pz = px palmDir * py palmWidth - py palmDir * px palmWidth \<rparr>;
               normalizePalmDirection = normalizeVector palmDir;
               normalizeFingerDirection = normalizeVector fingerDir;
               normalizePalmNormal = normalizeVector palmNorm;
               pitchRad = js_acos (vy normalizePalmDirection);
               projectedPalmDirection = \<lparr> px = px palmDir, py = 0, pz = pz palmDir \<rparr>;
               normalizeProjectedPalmDirection = normalizeVector projectedPalmDirection;
               yawRad = js_atan2 (vx normalizeProjectedPalmDirection)
                                 (vz normalizeProjectedPalmDirection);
               rollRad = js_atan2 (vx normalizePalmNormal) (vz normalizePalmNormal)
           in Inr \<lparr> angles = \<lparr> pitch = js_times pitchRad (180 / pi),
                                yaw = js_times yawRad (180 / pi),
                                roll = js_times rollRad (180 / pi) \<rparr>,
                    vectors = \<lparr> palmDirection = normalizePalmDirection,
                                 fingerDirection = normalizeFingerDirection,
                                 palmNormal = normalizePalmNormal \<rparr> \<rparr>)
      | _ \<Rightarrow> Inl TypeError)"

definition calculateHandOrientation :: "hand_prediction \<Rightarrow> hand_orientation" where
  "calculateHandOrientation prediction =
     (case orientation_try (hand_landmarks prediction) of
        Inr orientation \<Rightarrow> orientation
      | Inl error \<Rightarrow> default_orientation)"

text \<open>
  One element of \<^verbatim>\<open>processPredictions\<close>' \<^verbatim>\<open>map\<close>: the hand object
  the renderers receive. A field the consumer guards against being missing
  (\<^verbatim>\<open>keypoints || {}\<close>, \<^verbatim>\<open>orientation?.\<close>) is an option.
\<close>

record detected_hand =
  dh_landmarks :: "landmark option list option"
  dh_keypoints :: "keypoint_set option"
  dh_handedness :: string
  dh_measurements :: "hand_measurements option"
  dh_orientation :: "hand_orientation option"
  dh_confidence :: real

definition processPrediction :: "hand_prediction \<Rightarrow> js_error + detected_hand" where
  "processPrediction prediction =
     (case hand_extractKeypoints prediction of
        Inl error \<Rightarrow> Inl error
      | Inr keypoints \<Rightarrow>
          Inr \<lparr> dh_landmarks = hand_landmarks prediction,
                dh_keypoints = Some keypoints,
                dh_handedness = (if handedness prediction = ''Left'' then ''Left'' else ''Right''),
                dh_measurements = Some (calculateHandMeasurements prediction),
                dh_orientation = Some (calculateHandOrientation prediction),
                dh_confidence = score prediction \<rparr>)"

fun processPredictions :: "hand_prediction list \<Rightarrow> js_error + detected_hand list" where
  "processPredictions [] = Inr []"
| "processPredictions (prediction # predictions) =
     (case processPrediction prediction of
        Inl error \<Rightarrow> Inl error
      | Inr hand \<Rightarrow>
          (case processPredictions predictions of
             Inl error \<Rightarrow> Inl error
           | Inr hands \<Rightarrow> Inr (hand # hands)))"

section \<open>FaceLandmarkDetector\<close>

text \<open>
  A face prediction carries \<^verbatim>\<open>keypoints\<close> (here \<open>face_keypoints\<close>) or
  \<^verbatim>\<open>mesh\<close>; the points of the face mesh have all three coordinates.
\<close>

record face_prediction =
  face_keypoints :: "point3D option list option"
  face_mesh :: "point3D option list option"

text \<open>\<^verbatim>\<open>prediction.keypoints || prediction.mesh\<close>\<close>

definition face_landmarks :: "face_prediction \<Rightarrow> point3D option list option" where
  "face_landmarks prediction =
     (case face_keypoints prediction of Some a \<Rightarrow> Some a | None \<Rightarrow> face_mesh prediction)"

text \<open>\<^verbatim>\<open>a || b\<close> on two points that may be \<open>undefined\<close>.\<close>

definition point_or :: "point3D option \<Rightarrow> point3D option \<Rightarrow> point3D option" where
  "point_or a b = (case a of Some p \<Rightarrow> Some p | None \<Rightarrow> b)"

text \<open>
  The face mapping assigns each of its seven names whatever the two reads give, so a name
  can be present and hold \<open>undefined\<close> (\<open>Some None\<close>); a name never
  assigned is \<open>None\<close>. Reading \<^verbatim>\<open>keypoints.name\<close> gives
  \<open>undefined\<close> in both cases.
\<close>

type_synonym face_keypoint_set = "string \<rightharpoonup> point3D option"

definition kp_read :: "face_keypoint_set \<Rightarrow> string \<Rightarrow> point3D option" where
  "kp_read keypoints name = (case keypoints name of Some v \<Rightarrow> v | None \<Rightarrow> None)"

definition add_neckBase :: "face_keypoint_set \<Rightarrow> face_keypoint_set" where
  "add_neckBase keypoints =
     (case (kp_read keypoints ''leftEar'', kp_read keypoints ''rightEar'') of
        (Some leftEar, Some rightEar) \<Rightarrow>
          keypoints(''neckBase'' \<mapsto>
            Some \<lparr> px = (px leftEar + px rightEar) / 2,
                   py = max (py leftEar) (py rightEar) + 50,
                   pz = (pz leftEar + pz rightEar) / 2 \<rparr>)
      | _ \<Rightarrow> keypoints)"

text \<open>
  \<^verbatim>\<open>FaceLandmarkDetector.extractKeypoints(prediction)\<close>: the empty object for
  an absent or empty landmark array, the seven names and the neck base otherwise.
\<close>

definition face_extractKeypoints :: "face_prediction \<Rightarrow> face_keypoint_set" where
  "face_extractKeypoints prediction =
     (case face_landmarks prediction of
        None \<Rightarrow> Map.empty
      | Some landmarks \<Rightarrow>
          if length landmarks = 0 then Map.empty
          else add_neckBase
            (Map.empty
              (''leftEar'' \<mapsto> point_or (js_nth landmarks 234) (js_nth landmarks 93),
               ''rightEar'' \<mapsto> point_or (js_nth landmarks 454) (js_nth landmarks 323),
               ''leftEye'' \<mapsto> point_or (js_nth landmarks 33) (js_nth landmarks 159),
               ''rightEye'' \<mapsto> point_or (js_nth landmarks 263) (js_nth landmarks 386),
               ''noseTip'' \<mapsto> point_or (js_nth landmarks 1) (js_nth landmarks 19),
               ''upperLip'' \<mapsto> point_or (js_nth landmarks 13) (js_nth landmarks 0),
               ''lowerLip'' \<mapsto> point_or (js_nth landmarks 14) (js_nth landmarks 17))))"

section \<open>JewelryRenderer\<close>

text \<open>
  The renderer's state: the cached positions of the six slots
  (\<^verbatim>\<open>smoothedPositions\<close>), the smoothing factor and the images that are in the
  \<^verbatim>\<open>textures\<close> cache.
\<close>

record renderer =
  sm_earrings_left :: "point3D option"
  sm_earrings_right :: "point3D option"
  sm_necklace :: "point3D option"
  sm_ring :: "point3D option"
  sm_bracelet :: "point3D option"
  sm_watch :: "point3D option"
  smoothingFactor :: real
  textures :: "string set"

text \<open>The constructor: no cached position, \<^verbatim>\<open>this.smoothingFactor = 0.7\<close>.\<close>

definition new_renderer :: renderer where
  "new_renderer =
     \<lparr> sm_earrings_left = None, sm_earrings_right = None, sm_necklace = None,
       sm_ring = None, sm_bracelet = None, sm_watch = None,
       smoothingFactor = 0.7, textures = {} \<rparr>"

definition clearCache :: "renderer \<Rightarrow> renderer" where
  "clearCache r =
     r\<lparr> sm_earrings_left := None, sm_earrings_right := None, sm_necklace := None,
        sm_ring := None, sm_bracelet := None, sm_watch := None \<rparr>"

text \<open>
  \<^verbatim>\<open>smoothPosition(previousPosition, newPosition, smoothFactor)\<close>:
  a missing previous position passes the new one through, otherwise each component
  is blended on its own.
\<close>

definition smoothPosition :: "point3D option \<Rightarrow> point3D \<Rightarrow> real \<Rightarrow> point3D" where
  "smoothPosition previousPosition newPosition smoothFactor =
     (case previousPosition of
        None \<Rightarrow> newPosition
      | Some previous \<Rightarrow>
          \<lparr> px = px previous * smoothFactor + px newPosition * (1 - smoothFactor),
            py = py previous * smoothFactor + py newPosition * (1 - smoothFactor),
            pz = pz previous * smoothFactor + pz newPosition * (1 - smoothFactor) \<rparr>)"

text \<open>
  The renderer's inputs: a face and up to two hands, each with its landmark array. The
  renderer reads \<open>x\<close>, \<open>y\<close> and \<open>z\<close> of a landmark without a default, so
  its landmarks are points with all three coordinates.
\<close>

record tracked_face =
  f_landmarks :: "point3D option list option"
  f_rotation :: "real option"

record tracked_hand =
  h_landmarks :: "point3D option list option"

record trackingPoints =
  tp_face :: "tracked_face option"
  tp_leftHand :: "tracked_hand option"
  tp_rightHand :: "tracked_hand option"

record jewelry_item =
  item_type :: string
  preferredHand :: "string option"
  fingerIndex :: "nat option"
  sizeAdjustment :: "real option"
  imageUrl :: "string option"
  leftImageUrl :: "string option"
  rightImageUrl :: "string option"

text \<open>What \<^verbatim>\<open>drawImageAtPoint\<close> puts on the canvas: an image, where, how large, how turned.\<close>

record draw_call =
  dc_url :: string
  dc_x :: real
  dc_y :: real
  dc_size :: real
  dc_rotation :: real

text \<open>
  \<^verbatim>\<open>drawImageAtPoint\<close> throws when the image is not in the cache
  (\<^verbatim>\<open>loadTexture\<close> does not put it there).
\<close>

definition drawImageAtPoint ::
  "renderer \<Rightarrow> string \<Rightarrow> real \<Rightarrow> real \<Rightarrow> real \<Rightarrow> real \<Rightarrow> js_error + draw_call" where
  "drawImageAtPoint r url x y sz rotation =
     (if url \<in> textures r
      then Inr \<lparr> dc_url = url, dc_x = x, dc_y = y, dc_size = sz, dc_rotation = rotation \<rparr>
      else Inl (ImageLoadError url))"

text \<open>\<^verbatim>\<open>if (item.imageUrl) { await this.drawImageAtPoint(...) }\<close>\<close>

definition draw_if ::
  "renderer \<Rightarrow> string option \<Rightarrow> real \<Rightarrow> real \<Rightarrow> real \<Rightarrow> real \<Rightarrow> js_error + draw_call list" where
  "draw_if r url x y sz rotation =
     (if truthy_str url
      then (case drawImageAtPoint r (the url) x y sz rotation of
              Inl error \<Rightarrow> Inl error
            | Inr d \<Rightarrow> Inr [d])
      else Inr [])"

text \<open>
  The statements of a \<^verbatim>\<open>try\<close> block whose \<^verbatim>\<open>catch\<close> only logs:
  the draws made until the first one throws.
\<close>

fun try_draws :: "(js_error + draw_call list) list \<Rightarrow> draw_call list" where
  "try_draws [] = []"
| "try_draws (Inl error # rest) = []"
| "try_draws (Inr ds # rest) = ds @ try_draws rest"

definition getLeftEarringPosition :: "tracked_face \<Rightarrow> point3D option" where
  "getLeftEarringPosition face = js_at (f_landmarks face) 234"

definition getRightEarringPosition :: "tracked_face \<Rightarrow> point3D option" where
  "getRightEarringPosition face = js_at (f_landmarks face) 454"

definition getNeckPosition :: "tracked_face \<Rightarrow> point3D option" where
  "getNeckPosition face =
     (case js_at (f_landmarks face) 152 of
        Some chin \<Rightarrow> Some \<lparr> px = px chin, py = py chin + 0.1, pz = pz chin \<rparr>
      | None \<Rightarrow> None)"

definition getFingerRingPosition :: "tracked_hand \<Rightarrow> nat \<Rightarrow> point3D option" where
  "getFingerRingPosition hand fi =
     (let baseJointIndex = fi * 4 + 1;
          middleJointIndex = fi * 4 + 2
      in case (js_at (h_landmarks hand) baseJointIndex,
               js_at (h_landmarks hand) middleJointIndex) of
           (Some baseJoint, Some middleJoint) \<Rightarrow>
             Some \<lparr> px = px baseJoint * 0.3 + px middleJoint * 0.7,
                    py = py baseJoint * 0.3 + py middleJoint * 0.7,
                    pz = pz baseJoint * 0.3 + pz middleJoint * 0.7 \<rparr>
         | _ \<Rightarrow> None)"

definition getWristPosition :: "tracked_hand \<Rightarrow> point3D option" where
  "getWristPosition hand = js_at (h_landmarks hand) 0"

definition getWatchPosition :: "tracked_hand \<Rightarrow> point3D option" where
  "getWatchPosition hand =
     (case (js_at (h_landmarks hand) 0, js_at (h_landmarks hand) 9) of
        (Some wrist, Some palm) \<Rightarrow>
          Some \<lparr> px = px wrist * 0.8 + px palm * 0.2,
                 py = py wrist * 0.8 + py palm * 0.2,
                 pz = pz wrist * 0.8 + pz palm * 0.2 \<rparr>
      | _ \<Rightarrow> None)"

definition calculateDistance :: "point3D \<Rightarrow> point3D \<Rightarrow> real" where
  "calculateDistance point1 point2 =
     sqrt ((px point2 - px point1)\<^sup>2 + (py point2 - py point1)\<^sup>2 + (pz point2 - pz point1)\<^sup>2)"

definition estimateShoulderWidth :: "tracked_face \<Rightarrow> real" where
  "estimateShoulderWidth face =
     (case (js_at (f_landmarks face) 234, js_at (f_landmarks face) 454) of
        (Some leftCheek, Some rightCheek) \<Rightarrow> calculateDistance leftCheek rightCheek * 3
      | _ \<Rightarrow> 0.3)"

text \<open>
  \<^verbatim>\<open>Math.max(0, fingerIndex - 1)\<close> on a finger index that is a natural
  number is the truncated \<open>fi - 1\<close>.
\<close>

definition estimateFingerWidth :: "tracked_hand \<Rightarrow> nat \<Rightarrow> real" where
  "estimateFingerWidth hand fi =
     (let adjacentFinger1 = max 0 (fi - 1);
          adjacentFinger2 = min 4 (fi + 1)
      in case (js_at (h_landmarks hand) (adjacentFinger1 * 4 + 1),
               js_at (h_landmarks hand) (adjacentFinger2 * 4 + 1)) of
           (Some baseJoint1, Some baseJoint2) \<Rightarrow> calculateDistance baseJoint1 baseJoint2 * 0.4
         | _ \<Rightarrow> 0.02)"

definition estimateWristWidth :: "tracked_hand \<Rightarrow> real" where
  "estimateWristWidth hand =
     (case (js_at (h_landmarks hand) 1, js_at (h_landmarks hand) 17) of
        (Some thumbBase, Some pinkyBase) \<Rightarrow> calculateDistance thumbBase pinkyBase * 1.2
      | _ \<Rightarrow> 0.1)"

definition calculateFingerRotation :: "tracked_hand \<Rightarrow> nat \<Rightarrow> real" where
  "calculateFingerRotation hand fi =
     (let baseJointIndex = fi * 4 + 1;
          tipJointIndex = fi * 4 + 4
      in case (js_at (h_landmarks hand) baseJointIndex, js_at (h_landmarks hand) tipJointIndex) of
           (Some baseJoint, Some tipJoint) \<Rightarrow>
             atan2 (py tipJoint - py baseJoint) (px tipJoint - px baseJoint) * (180 / pi)
         | _ \<Rightarrow> 0)"

definition calculateArmRotation :: "tracked_hand \<Rightarrow> real" where
  "calculateArmRotation hand =
     (case (js_at (h_landmarks hand) 0, js_at (h_landmarks hand) 9) of
        (Some wrist, Some middleBase) \<Rightarrow>
          atan2 (py middleBase - py wrist) (px middleBase - px wrist) * (180 / pi)
      | _ \<Rightarrow> 0)"

text \<open>
  The hand the three hand renderers choose:
  \<^verbatim>\<open>item.preferredHand === 'left' ? trackingPoints.leftHand
    : (trackingPoints.rightHand || trackingPoints.leftHand)\<close>.
\<close>

definition choose_hand :: "jewelry_item \<Rightarrow> trackingPoints \<Rightarrow> tracked_hand option" where
  "choose_hand item tp =
     (if preferredHand item = Some ''left'' then tp_leftHand tp
      else (case tp_rightHand tp of Some hand \<Rightarrow> Some hand | None \<Rightarrow> tp_leftHand tp))"

text \<open>
  \<^verbatim>\<open>eyeDistance * earrings.sizeAdjustment || 0.15\<close>: the product comes first, and
  0.15 stands in when it is 0 or (without a size adjustment) \<open>NaN\<close>.
\<close>

definition earring_scale :: "real \<Rightarrow> real option \<Rightarrow> real" where
  "earring_scale eyeDistance adjustment =
     (case adjustment of
        None \<Rightarrow> 0.15
      | Some adj \<Rightarrow> if eyeDistance * adj = 0 then 0.15 else eyeDistance * adj)"

text \<open>
  The render methods return the renderer with its cache updated, and the images drawn;
  \<open>Inl\<close> is an exception that leaves the method (the promise rejects), after
  the cache was written.
\<close>

definition renderEarrings ::
  "renderer \<Rightarrow> jewelry_item \<Rightarrow> trackingPoints \<Rightarrow> real \<Rightarrow> real
     \<Rightarrow> renderer \<times> (js_error + draw_call list)" where
  "renderEarrings r earrings tp videoWidth videoHeight =
     (case tp_face tp of
        None \<Rightarrow> (r, Inr [])
      | Some face \<Rightarrow>
          (case (getLeftEarringPosition face, getRightEarringPosition face) of
             (Some leftEarPoint, Some rightEarPoint) \<Rightarrow>
               (let leftEar = smoothPosition (sm_earrings_left r) leftEarPoint (smoothingFactor r);
                    rightEar = smoothPosition (sm_earrings_right r) rightEarPoint (smoothingFactor r);
                    r' = r\<lparr> sm_earrings_left := Some leftEar, sm_earrings_right := Some rightEar \<rparr>
                in case (js_at (f_landmarks face) 27, js_at (f_landmarks face) 33) of
                     (Some eyeLeft, Some eyeRight) \<Rightarrow>
                       (let eyeDistance = calculateDistance eyeLeft eyeRight;
                            scale = earring_scale eyeDistance (sizeAdjustment earrings)
                        in (r', Inr (try_draws
                              [draw_if r' (leftImageUrl earrings)
                                 (px leftEar * videoWidth) (py leftEar * videoHeight)
                                 (scale * videoWidth) (num_or (f_rotation face) 0),
                               draw_if r' (rightImageUrl earrings)
                                 (px rightEar * videoWidth) (py rightEar * videoHeight)
                                 (scale * videoWidth) (num_or (f_rotation face) 0)])))
                   | _ \<Rightarrow> (r', Inl TypeError))
           | _ \<Rightarrow> (r, Inr [])))"

definition renderNecklace ::
  "renderer \<Rightarrow> jewelry_item \<Rightarrow> trackingPoints \<Rightarrow> real \<Rightarrow> real
     \<Rightarrow> renderer \<times> (js_error + draw_call list)" where
  "renderNecklace r necklace tp videoWidth videoHeight =
     (case tp_face tp of
        None \<Rightarrow> (r, Inr [])
      | Some face \<Rightarrow>
          (case getNeckPosition face of
             None \<Rightarrow> (r, Inr [])
           | Some neckPoint \<Rightarrow>
               (let neck = smoothPosition (sm_necklace r) neckPoint (smoothingFactor r);
                    r' = r\<lparr> sm_necklace := Some neck \<rparr>;
                    shoulderWidth = estimateShoulderWidth face;
                    scale = shoulderWidth * num_or (sizeAdjustment necklace) 1.0
                in (r', Inr (try_draws
                      [draw_if r' (imageUrl necklace)
                         (px neck * videoWidth) (py neck * videoHeight)
                         (scale * videoWidth) (num_or (f_rotation face) 0)])))))"

definition renderRing ::
  "renderer \<Rightarrow> jewelry_item \<Rightarrow> trackingPoints \<Rightarrow> real \<Rightarrow> real
     \<Rightarrow> renderer \<times> (js_error + draw_call list)" where
  "renderRing r ring tp videoWidth videoHeight =
     (case choose_hand ring tp of
        None \<Rightarrow> (r, Inr [])
      | Some hand \<Rightarrow>
          (let fi = nat_or (fingerIndex ring) 3 in
           case getFingerRingPosition hand fi of
             None \<Rightarrow> (r, Inr [])
           | Some fingerPoint \<Rightarrow>
               (let fingerPos = smoothPosition (sm_ring r) fingerPoint (smoothingFactor r);
                    r' = r\<lparr> sm_ring := Some fingerPos \<rparr>;
                    fingerWidth = estimateFingerWidth hand fi;
                    scale = fingerWidth * num_or (sizeAdjustment ring) 1.5;
                    rotation = calculateFingerRotation hand fi
                in (r', Inr (try_draws
                      [draw_if r' (imageUrl ring)
                         (px fingerPos * videoWidth) (py fingerPos * videoHeight)
                         (scale * videoWidth) rotation])))))"

definition renderBracelet ::
  "renderer \<Rightarrow> jewelry_item \<Rightarrow> trackingPoints \<Rightarrow> real \<Rightarrow> real
     \<Rightarrow> renderer \<times> (js_error + draw_call list)" where
  "renderBracelet r bracelet tp videoWidth videoHeight =
     (case choose_hand bracelet tp of
        None \<Rightarrow> (r, Inr [])
      | Some hand \<Rightarrow>
          (case getWristPosition hand of
             None \<Rightarrow> (r, Inr [])
           | Some wristPoint \<Rightarrow>
               (let wrist = smoothPosition (sm_bracelet r) wristPoint (smoothingFactor r);
                    r' = r\<lparr> sm_bracelet := Some wrist \<rparr>;
                    wristWidth = estimateWristWidth hand;
                    scale = wristWidth * num_or (sizeAdjustment bracelet) 1.2;
                    rotation = calculateArmRotation hand
                in (r', Inr (try_draws
                      [draw_if r' (imageUrl bracelet)
                         (px wrist * videoWidth) (py wrist * videoHeight)
                         (scale * videoWidth) rotation])))))"

definition renderWatch ::
  "renderer \<Rightarrow> jewelry_item \<Rightarrow> trackingPoints \<Rightarrow> real \<Rightarrow> real
     \<Rightarrow> renderer \<times> (js_error + draw_call list)" where
  "renderWatch r watch tp videoWidth videoHeight =
     (case choose_hand watch tp of
        None \<Rightarrow> (r, Inr [])
      | Some hand \<Rightarrow>
          (case getWatchPosition hand of
             None \<Rightarrow> (r, Inr [])
           | Some watchPoint \<Rightarrow>
               (let wristPos = smoothPosition (sm_watch r) watchPoint (smoothingFactor r);
                    r' = r\<lparr> sm_watch := Some wristPos \<rparr>;
                    wristWidth = estimateWristWidth hand;
                    scale = wristWidth * num_or (sizeAdjustment watch) 1.5;
                    rotation = calculateArmRotation hand
                in (r', Inr (try_draws
                      [draw_if r' (imageUrl watch)
                         (px wristPos * videoWidth) (py wristPos * videoHeight)
                         (scale * videoWidth) rotation])))))"

section \<open>ARVirtualTryOn: drawHandItem\<close>

text \<open>
  The component's \<^verbatim>\<open>itemAdjustments\<close> state, and the arguments of one
  \<^verbatim>\<open>drawImage\<close> call: the transform the live view hands to the canvas.
\<close>

record item_adjustments =
  adj_scale :: real
  adj_xOffset :: real
  adj_yOffset :: real
  adj_rotation :: real

record image_draw =
  img_url :: string
  img_x :: real
  img_y :: real
  img_scale :: jsnum
  img_rotation :: jsnum
  img_xOffset :: real
  img_yOffset :: real

text \<open>A natural number in a template literal: its decimal digits.\<close>

fun string_of_nat :: "nat \<Rightarrow> string" where
  "string_of_nat n =
     (if n < 10 then [''0123456789'' ! n]
      else string_of_nat (n div 10) @ [''0123456789'' ! (n mod 10)])"

declare string_of_nat.simps [simp del]

text \<open>\<^verbatim>\<open>item.sizeAdjustment * itemAdjustments.scale\<close>: \<open>NaN\<close> without a size adjustment.\<close>

definition item_scale :: "jewelry_item \<Rightarrow> item_adjustments \<Rightarrow> jsnum" where
  "item_scale item adj =
     (case sizeAdjustment item of None \<Rightarrow> NaN | Some a \<Rightarrow> Finite (a * adj_scale adj))"

text \<open>
  \<^verbatim>\<open>targetHand.orientation?.angles.roll + itemAdjustments.rotation || itemAdjustments.rotation\<close>
\<close>

definition wrist_rotation :: "detected_hand \<Rightarrow> item_adjustments \<Rightarrow> jsnum" where
  "wrist_rotation targetHand adj =
     (let turned = (case dh_orientation targetHand of
                      None \<Rightarrow> NaN
                    | Some orientation \<Rightarrow> js_plus (roll (angles orientation)) (adj_rotation adj))
      in if js_truthy turned then turned else Finite (adj_rotation adj))"

text \<open>
  The hand \<^verbatim>\<open>drawHandItem\<close> draws on: the first detected hand of the
  preferred handedness (\<open>Left\<close> for \<^verbatim>\<open>preferredHand === 'left'\<close>,
  \<open>Right\<close> otherwise), or else the first detected hand.
\<close>

definition select_targetHand :: "jewelry_item \<Rightarrow> detected_hand list \<Rightarrow> detected_hand option" where
  "select_targetHand item handDetections =
     (if preferredHand item = Some ''left'' then
        (case find (\<lambda>hand. dh_handedness hand = ''Left'') handDetections of
           Some hand \<Rightarrow> Some hand
         | None \<Rightarrow> if length handDetections > 0 then Some (handDetections ! 0) else None)
      else
        (case find (\<lambda>hand. dh_handedness hand = ''Right'') handDetections of
           Some hand \<Rightarrow> Some hand
         | None \<Rightarrow> if length handDetections > 0 then Some (handDetections ! 0) else None))"

definition drawHandItem ::
  "detected_hand list \<Rightarrow> jewelry_item \<Rightarrow> item_adjustments \<Rightarrow> image_draw list" where
  "drawHandItem handDetections item adj =
     (if length handDetections = 0 then []
      else
        case select_targetHand item handDetections of
          None \<Rightarrow> []
        | Some targetHand \<Rightarrow>
            (let keypoints = (case dh_keypoints targetHand of
                                Some k \<Rightarrow> k
                              | None \<Rightarrow> Map.empty)
             in if item_type item = ''ring'' then
                  (let fi = nat_or (fingerIndex item) 3 in
                   case (keypoints (string_of_nat fi @ ''_mcp''),
                         keypoints (string_of_nat fi @ ''_pip'')) of
                     (Some fingerBase, Some fingerMiddle) \<Rightarrow>
                       (let ringX = px fingerBase * 0.3 + px fingerMiddle * 0.7;
                            ringY = py fingerBase * 0.3 + py fingerMiddle * 0.7;
                            angle = atan2 (py fingerMiddle - py fingerBase)
                                          (px fingerMiddle - px fingerBase) * (180 / pi)
                        in if truthy_str (imageUrl item)
                           then [\<lparr> img_url = the (imageUrl item),
                                   img_x = ringX, img_y = ringY,
                                   img_scale = item_scale item adj,
                                   img_rotation = Finite (angle + adj_rotation adj),
                                   img_xOffset = adj_xOffset adj,
                                   img_yOffset = adj_yOffset adj \<rparr>]
                           else [])
                   | _ \<Rightarrow> [])
                else if item_type item = ''bracelet'' then
                  (case keypoints ''wrist'' of
                     Some wrist \<Rightarrow>
                       if truthy_str (imageUrl item)
                       then [\<lparr> img_url = the (imageUrl item),
                               img_x = px wrist, img_y = py wrist,
                               img_scale = item_scale item adj,
                               img_rotation = wrist_rotation targetHand adj,
                               img_xOffset = adj_xOffset adj,
                               img_yOffset = adj_yOffset adj \<rparr>]
                       else []
                   | None \<Rightarrow> [])
                else if item_type item = ''watch'' then
                  (case keypoints ''wrist'' of
                     Some watchPoint \<Rightarrow>
                       if truthy_str (imageUrl item)
                       then [\<lparr> img_url = the (imageUrl item),
                               img_x = px watchPoint, img_y = py watchPoint,
                               img_scale = item_scale item adj,
                               img_rotation = wrist_rotation targetHand adj,
                               img_xOffset = adj_xOffset adj,
                               img_yOffset = adj_yOffset adj \<rparr>]
                       else []
                   | None \<Rightarrow> [])
                else []))"

section \<open>Conditions the properties are stated under\<close>

text \<open>
  A size adjustment that is missing (the category's default is used) or not negative
  (0 is falsy, so the default is used as well).
\<close>

definition adjustment_ok :: "jewelry_item \<Rightarrow> bool" where
  "adjustment_ok item = (case sizeAdjustment item of None \<Rightarrow> True | Some a \<Rightarrow> 0 \<le> a)"

text \<open>
  The two landmarks a scale estimate measures between are not one and the same point;
  with one of them missing the estimate falls back to its default.
\<close>

definition reference_usable :: "point3D option \<Rightarrow> point3D option \<Rightarrow> bool" where
  "reference_usable a b = (a = None \<or> b = None \<or> a \<noteq> b)"

section \<open>Example inputs\<close>

definition adj0 :: item_adjustments where
  "adj0 = \<lparr> adj_scale = 1, adj_xOffset = 0, adj_yOffset = 0, adj_rotation = 0 \<rparr>"

text \<open>
  A ring on finger 3 and a right hand of 21 landmarks with the ring finger along the x
  axis: MCP (0, 0), PIP (10, 0), tip (30, 0). The second hand has the finger bent, its
  tip at (10, 10).
\<close>

definition example_ring :: jewelry_item where
  "example_ring =
     \<lparr> item_type = ''ring'', preferredHand = None, fingerIndex = Some 3,
       sizeAdjustment = Some 1, imageUrl = Some ''ring.png'',
       leftImageUrl = None, rightImageUrl = None \<rparr>"

definition example_hand_landmarks :: "point3D option list" where
  "example_hand_landmarks =
     [Some \<lparr> px = -40, py = 0, pz = 0 \<rparr>,
      Some \<lparr> px = -30, py = -20, pz = 0 \<rparr>, Some \<lparr> px = -20, py = -30, pz = 0 \<rparr>,
      Some \<lparr> px = -10, py = -35, pz = 0 \<rparr>, Some \<lparr> px = 0, py = -40, pz = 0 \<rparr>,
      Some \<lparr> px = 0, py = -20, pz = 0 \<rparr>, Some \<lparr> px = 10, py = -20, pz = 0 \<rparr>,
      Some \<lparr> px = 20, py = -20, pz = 0 \<rparr>, Some \<lparr> px = 30, py = -20, pz = 0 \<rparr>,
      Some \<lparr> px = 0, py = -10, pz = 0 \<rparr>, Some \<lparr> px = 10, py = -10, pz = 0 \<rparr>,
      Some \<lparr> px = 20, py = -10, pz = 0 \<rparr>, Some \<lparr> px = 30, py = -10, pz = 0 \<rparr>,
      Some \<lparr> px = 0, py = 0, pz = 0 \<rparr>, Some \<lparr> px = 10, py = 0, pz = 0 \<rparr>,
      Some \<lparr> px = 20, py = 0, pz = 0 \<rparr>, Some \<lparr> px = 30, py = 0, pz = 0 \<rparr>,
      Some \<lparr> px = 0, py = 10, pz = 0 \<rparr>, Some \<lparr> px = 10, py = 10, pz = 0 \<rparr>,
      Some \<lparr> px = 20, py = 10, pz = 0 \<rparr>, Some \<lparr> px = 30, py = 10, pz = 0 \<rparr>]"

definition example_hand :: tracked_hand where
  "example_hand = \<lparr> h_landmarks = Some example_hand_landmarks \<rparr>"

definition bent_hand :: tracked_hand where
  "bent_hand =
     \<lparr> h_landmarks = Some (example_hand_landmarks[16 := Some \<lparr> px = 10, py = 10, pz = 0 \<rparr>]) \<rparr>"

definition frame_with_right_hand :: trackingPoints where
  "frame_with_right_hand =
     \<lparr> tp_face = None, tp_leftHand = None, tp_rightHand = Some example_hand \<rparr>"

definition ring_renderer :: renderer where
  "ring_renderer = new_renderer\<lparr> textures := {''ring.png''} \<rparr>"

text \<open>The watch of the specification's scenario: a right hand with a wrist and a pinky base only.\<close>

definition example_watch :: jewelry_item where
  "example_watch =
     \<lparr> item_type = ''watch'', preferredHand = Some ''left'', fingerIndex = None,
       sizeAdjustment = Some 1, imageUrl = Some ''watch.png'',
       leftImageUrl = None, rightImageUrl = None \<rparr>"

definition example_watch_prediction :: hand_prediction where
  "example_watch_prediction =
     \<lparr> keypoints3D = Some ((replicate 21 None)
          [0 := Some \<lparr> lx = 0.5, ly = 0.8, lz = Some 0 \<rparr>,
           17 := Some \<lparr> lx = 0.6, ly = 0.75, lz = Some 0 \<rparr>]),
       keypoints2D = None,
       handedness = ''Right'',
       score = 1 \<rparr>"

definition example_watch_keypoints :: keypoint_set where
  "example_watch_keypoints =
     [''wrist'' \<mapsto> \<lparr> px = 0.5, py = 0.8, pz = 0 \<rparr>,
      ''pinky_mcp'' \<mapsto> \<lparr> px = 0.6, py = 0.75, pz = 0 \<rparr>,
      ''bracelet_position'' \<mapsto> \<lparr> px = 0.5, py = 0.8, pz = 0 \<rparr>,
      ''watch_position'' \<mapsto> \<lparr> px = 0.52, py = 0.79, pz = 0 \<rparr>]"

definition example_watch_hand :: detected_hand where
  "example_watch_hand =
     \<lparr> dh_landmarks = keypoints3D example_watch_prediction,
       dh_keypoints = Some example_watch_keypoints,
       dh_handedness = ''Right'',
       dh_measurements = Some default_measurements,
       dh_orientation = Some default_orientation,
       dh_confidence = 1 \<rparr>"

text \<open>Two faces with the ears 200 and 100 apart, at the same height.\<close>

definition ears_200 :: face_prediction where
  "ears_200 =
     \<lparr> face_keypoints = Some ((replicate 455 None)
          [234 := Some \<lparr> px = 100, py = 150, pz = 0 \<rparr>,
           454 := Some \<lparr> px = 300, py = 150, pz = 0 \<rparr>]),
       face_mesh = None \<rparr>"

definition ears_100 :: face_prediction where
  "ears_100 =
     \<lparr> face_keypoints = Some ((replicate 455 None)
          [234 := Some \<lparr> px = 100, py = 150, pz = 0 \<rparr>,
           454 := Some \<lparr> px = 200, py = 150, pz = 0 \<rparr>]),
       face_mesh = None \<rparr>"

text \<open>A renderer with three images loaded, earrings, a necklace, and a frame with and without a face.\<close>

definition example_renderer :: renderer where
  "example_renderer =
     new_renderer\<lparr> textures := {''left.png'', ''right.png'', ''necklace.png''} \<rparr>"

definition example_earrings :: jewelry_item where
  "example_earrings =
     \<lparr> item_type = ''earrings'', preferredHand = None, fingerIndex = None,
       sizeAdjustment = Some 1, imageUrl = None,
       leftImageUrl = Some ''left.png'', rightImageUrl = Some ''right.png'' \<rparr>"

definition example_necklace :: jewelry_item where
  "example_necklace =
     \<lparr> item_type = ''necklace'', preferredHand = None, fingerIndex = None,
       sizeAdjustment = Some 1, imageUrl = Some ''necklace.png'',
       leftImageUrl = None, rightImageUrl = None \<rparr>"

definition example_face :: tracked_face where
  "example_face =
     \<lparr> f_landmarks = Some ((replicate 455 None)
         [27 := Some \<lparr> px = 0.4, py = 0.4, pz = 0 \<rparr>,
          33 := Some \<lparr> px = 0.6, py = 0.4, pz = 0 \<rparr>,
          152 := Some \<lparr> px = 0.5, py = 0.7, pz = 0 \<rparr>,
          234 := Some \<lparr> px = 0.3, py = 0.5, pz = 0 \<rparr>,
          454 := Some \<lparr> px = 0.7, py = 0.5, pz = 0 \<rparr>]),
       f_rotation = None \<rparr>"

text \<open>The same face a little to the right.\<close>

definition moved_face :: tracked_face where
  "moved_face =
     \<lparr> f_landmarks = Some ((replicate 455 None)
         [27 := Some \<lparr> px = 0.5, py = 0.4, pz = 0 \<rparr>,
          33 := Some \<lparr> px = 0.7, py = 0.4, pz = 0 \<rparr>,
          152 := Some \<lparr> px = 0.6, py = 0.7, pz = 0 \<rparr>,
          234 := Some \<lparr> px = 0.4, py = 0.5, pz = 0 \<rparr>,
          454 := Some \<lparr> px = 0.8, py = 0.5, pz = 0 \<rparr>]),
       f_rotation = None \<rparr>"

definition frame_with_moved_face :: trackingPoints where
  "frame_with_moved_face = \<lparr> tp_face = Some moved_face, tp_leftHand = None, tp_rightHand = None \<rparr>"

text \<open>A face of which only the chin was found: neither cheek landmark is there.\<close>

definition chin_only_face :: tracked_face where
  "chin_only_face =
     \<lparr> f_landmarks = Some ((replicate 153 None)[152 := Some \<lparr> px = 0.5, py = 0.7, pz = 0 \<rparr>]),
       f_rotation = None \<rparr>"

definition frame_with_chin_only :: trackingPoints where
  "frame_with_chin_only =
     \<lparr> tp_face = Some chin_only_face, tp_leftHand = None, tp_rightHand = None \<rparr>"

text \<open>A face whose two cheek landmarks are one and the same point.\<close>

definition flat_face :: tracked_face where
  "flat_face =
     \<lparr> f_landmarks = Some ((replicate 455 None)
         [152 := Some \<lparr> px = 0.5, py = 0.7, pz = 0 \<rparr>,
          234 := Some \<lparr> px = 0.5, py = 0.5, pz = 0 \<rparr>,
          454 := Some \<lparr> px = 0.5, py = 0.5, pz = 0 \<rparr>]),
       f_rotation = None \<rparr>"

definition frame_with_face :: trackingPoints where
  "frame_with_face = \<lparr> tp_face = Some example_face, tp_leftHand = None, tp_rightHand = None \<rparr>"

definition frame_without_face :: trackingPoints where
  "frame_without_face = \<lparr> tp_face = None, tp_leftHand = None, tp_rightHand = None \<rparr>"

definition frame_with_flat_face :: trackingPoints where
  "frame_with_flat_face = \<lparr> tp_face = Some flat_face, tp_leftHand = None, tp_rightHand = None \<rparr>"

text \<open>A hand prediction with two landmarks only, and one with none.\<close>

definition short_prediction :: hand_prediction where
  "short_prediction =
     \<lparr> keypoints3D = Some [Some \<lparr> lx = 0.5, ly = 0.8, lz = Some 0 \<rparr>,
                           Some \<lparr> lx = 0.4, ly = 0.7, lz = None \<rparr>],
       keypoints2D = None,
       handedness = ''Left'',
       score = 1 \<rparr>"

definition empty_prediction :: hand_prediction where
  "empty_prediction =
     \<lparr> keypoints3D = Some [], keypoints2D = None, handedness = ''Left'', score = 1 \<rparr>"

definition absent_face_prediction :: face_prediction where
  "absent_face_prediction = \<lparr> face_keypoints = None, face_mesh = None \<rparr>"

section \<open>Auxiliary facts\<close>

lemma atan2_zero_pos: "0 < a \<Longrightarrow> atan2 0 a = 0"
  by (simp add: atan2_def)

lemma js_nth_short: "length a \<le> i \<Longrightarrow> js_nth a i = None"
  by (simp add: js_nth_def)

lemma distinct_handLandmarkNames: "distinct handLandmarkNames"
  by (simp add: handLandmarkNames_def)

lemma length_handLandmarkNames: "length handLandmarkNames = 21"
  by (simp add: handLandmarkNames_def)

lemma raw_names:
  "handLandmarkNames ! 0 = ''wrist''"
  "handLandmarkNames ! 13 = ''ring_finger_mcp''"
  "handLandmarkNames ! 14 = ''ring_finger_pip''"
  "handLandmarkNames ! 17 = ''pinky_mcp''"
  by (simp_all add: handLandmarkNames_def)

lemma derived_not_raw:
  "i < 21 \<Longrightarrow> handLandmarkNames ! i \<noteq> ''ring_position''"
  "i < 21 \<Longrightarrow> handLandmarkNames ! i \<noteq> ''bracelet_position''"
  "i < 21 \<Longrightarrow> handLandmarkNames ! i \<noteq> ''watch_position''"
  using nth_mem[of i handLandmarkNames]
  by (auto simp: handLandmarkNames_def)

text \<open>The naming loop leaves a name alone that none of the indices it visits carries.\<close>

lemma name_landmarks_other:
  "(\<And>j. j < length lms \<Longrightarrow> i + j < 21 \<Longrightarrow> handLandmarkNames ! (i + j) \<noteq> k)
     \<Longrightarrow> name_landmarks i lms kp k = kp k"
proof (induction lms arbitrary: i kp)
  case Nil
  then show ?case by simp
next
  case (Cons l rest)
  have here: "i < 21 \<Longrightarrow> handLandmarkNames ! i \<noteq> k"
    using Cons.prems[of 0] by simp
  have later: "\<And>j. j < length rest \<Longrightarrow> Suc i + j < 21 \<Longrightarrow> handLandmarkNames ! (Suc i + j) \<noteq> k"
    using Cons.prems[of "Suc j" for j] by simp
  show ?case
    using Cons.IH[OF later] here
    by (auto simp: length_handLandmarkNames split: option.splits)
qed

text \<open>A landmark that is there ends up under its name.\<close>

lemma name_landmarks_found:
  "j < length lms \<Longrightarrow> i + j < 21 \<Longrightarrow> lms ! j = Some p
     \<Longrightarrow> name_landmarks i lms kp (handLandmarkNames ! (i + j)) =
           Some \<lparr> px = lx p, py = ly p, pz = z_or_0 p \<rparr>"
proof (induction lms arbitrary: i j kp)
  case Nil
  then show ?case by simp
next
  case (Cons l rest)
  show ?case
  proof (cases j)
    case 0
    have "name_landmarks (Suc i) rest
            (kp(handLandmarkNames ! i \<mapsto> \<lparr> px = lx p, py = ly p, pz = z_or_0 p \<rparr>))
            (handLandmarkNames ! i) =
          (kp(handLandmarkNames ! i \<mapsto> \<lparr> px = lx p, py = ly p, pz = z_or_0 p \<rparr>))
            (handLandmarkNames ! i)"
    proof (rule name_landmarks_other)
      fix j' assume "j' < length rest" "Suc i + j' < 21"
      then show "handLandmarkNames ! (Suc i + j') \<noteq> handLandmarkNames ! i"
        using distinct_handLandmarkNames
        by (simp add: nth_eq_iff_index_eq length_handLandmarkNames)
    qed
    with 0 Cons.prems show ?thesis
      by (simp add: length_handLandmarkNames)
  next
    case (Suc j')
    with Cons.prems have "j' < length rest" "Suc i + j' < 21" "rest ! j' = Some p"
      by simp_all
    from Cons.IH[OF this] Suc show ?thesis by simp
  qed
qed

lemma named_absent:
  assumes "length lms \<le> i" "i < 21"
  shows "name_landmarks 0 lms Map.empty (handLandmarkNames ! i) = None"
proof -
  have "name_landmarks 0 lms Map.empty (handLandmarkNames ! i) = Map.empty (handLandmarkNames ! i)"
  proof (rule name_landmarks_other)
    fix j assume "j < length lms" "0 + j < 21"
    with assms show "handLandmarkNames ! (0 + j) \<noteq> handLandmarkNames ! i"
      using distinct_handLandmarkNames
      by (simp add: nth_eq_iff_index_eq length_handLandmarkNames)
  qed
  then show ?thesis by simp
qed

lemma derived_unnamed:
  "name_landmarks 0 lms Map.empty ''ring_position'' = None"
  "name_landmarks 0 lms Map.empty ''bracelet_position'' = None"
  "name_landmarks 0 lms Map.empty ''watch_position'' = None"
  using derived_not_raw by (simp_all add: name_landmarks_other)

lemma add_watch_position_apply:
  "add_watch_position k n =
     (if n = ''watch_position'' then
        (case (k ''wrist'', k ''pinky_mcp'') of
           (Some w, Some q) \<Rightarrow>
              Some \<lparr> px = px w * 0.8 + px q * 0.2,
                     py = py w * 0.8 + py q * 0.2,
                     pz = pz w * 0.8 + pz q * 0.2 \<rparr>
         | _ \<Rightarrow> k n)
      else k n)"
  by (simp add: add_watch_position_def split: option.splits)

lemma add_bracelet_position_apply:
  "add_bracelet_position k n =
     (if n = ''bracelet_position'' then (case k ''wrist'' of Some w \<Rightarrow> Some w | None \<Rightarrow> k n)
      else k n)"
  by (simp add: add_bracelet_position_def split: option.splits)

lemma add_ring_position_apply:
  "add_ring_position k n =
     (if n = ''ring_position'' then
        (case (k ''ring_finger_mcp'', k ''ring_finger_pip'') of
           (Some m, Some p) \<Rightarrow>
              Some \<lparr> px = (px m + px p) / 2, py = (py m + py p) / 2, pz = (pz m + pz p) / 2 \<rparr>
         | _ \<Rightarrow> k n)
      else k n)"
  by (simp add: add_ring_position_def split: option.splits)

lemma select_targetHand_nonempty:
  "select_targetHand item hs = Some h \<Longrightarrow> hs \<noteq> []"
  by (auto simp: select_targetHand_def split: if_splits option.splits)

lemma calculateDistance_nonneg: "0 \<le> calculateDistance a b"
  by (simp add: calculateDistance_def)

lemma calculateDistance_eq_0_iff: "calculateDistance a b = 0 \<longleftrightarrow> a = b"
proof -
  have "calculateDistance a b = 0 \<longleftrightarrow>
        (px b - px a)\<^sup>2 + (py b - py a)\<^sup>2 + (pz b - pz a)\<^sup>2 = 0"
    by (simp add: calculateDistance_def)
  also have "\<dots> \<longleftrightarrow> px b = px a \<and> py b = py a \<and> pz b = pz a"
    by (simp add: add_nonneg_eq_0_iff)
  also have "\<dots> \<longleftrightarrow> a = b"
    by (cases a, cases b) auto
  finally show ?thesis .
qed

lemma calculateDistance_pos: "a \<noteq> b \<Longrightarrow> 0 < calculateDistance a b"
  using calculateDistance_nonneg[of a b] calculateDistance_eq_0_iff[of a b] by linarith

lemma try_draws_one:
  "d \<in> set (try_draws [draw_if r url x y sz rot]) \<Longrightarrow> dc_size d = sz"
  by (auto simp: draw_if_def drawImageAtPoint_def split: if_splits)

lemma try_draws_two:
  "d \<in> set (try_draws [draw_if r url x y sz rot, draw_if r url' x' y' sz rot'])
     \<Longrightarrow> dc_size d = sz"
  by (auto simp: draw_if_def drawImageAtPoint_def split: if_splits)

lemma num_or_pos: "adjustment_ok item \<Longrightarrow> 0 < dflt \<Longrightarrow> 0 < num_or (sizeAdjustment item) dflt"
  by (auto simp: adjustment_ok_def num_or_def split: option.splits)

lemma earring_scale_pos:
  assumes "adjustment_ok item" "0 \<le> ed"
  shows "0 < earring_scale ed (sizeAdjustment item)"
proof (cases "sizeAdjustment item")
  case None
  then show ?thesis by (simp add: earring_scale_def)
next
  case (Some adj)
  with assms have "0 \<le> ed * adj" by (simp add: adjustment_ok_def)
  then have "ed * adj \<noteq> 0 \<Longrightarrow> 0 < ed * adj" by linarith
  then show ?thesis using Some by (auto simp: earring_scale_def)
qed

lemma reference_distance_pos:
  assumes "reference_usable (Some a) (Some b)"
  shows "0 < calculateDistance a b"
  using assms by (simp add: reference_usable_def calculateDistance_pos)

lemma estimateShoulderWidth_pos:
  "reference_usable (js_at (f_landmarks face) 234) (js_at (f_landmarks face) 454)
     \<Longrightarrow> 0 < estimateShoulderWidth face"
  by (auto simp: estimateShoulderWidth_def reference_distance_pos split: option.splits)

lemma estimateFingerWidth_pos:
  "reference_usable (js_at (h_landmarks hand) (max 0 (fi - 1) * 4 + 1))
                    (js_at (h_landmarks hand) (min 4 (fi + 1) * 4 + 1))
     \<Longrightarrow> 0 < estimateFingerWidth hand fi"
  by (auto simp: estimateFingerWidth_def Let_def reference_distance_pos split: option.splits)

lemma estimateWristWidth_pos:
  "reference_usable (js_at (h_landmarks hand) 1) (js_at (h_landmarks hand) 17)
     \<Longrightarrow> 0 < estimateWristWidth hand"
  by (auto simp: estimateWristWidth_def reference_distance_pos split: option.splits)

lemma earrings_size_pos:
  assumes "0 < w" "adjustment_ok item"
    and "renderEarrings r item tp w h = (r', Inr ds)" "d \<in> set ds"
  shows "0 < dc_size d"
proof -
  from assms(3,4) obtain a b where
    "dc_size d = earring_scale (calculateDistance a b) (sizeAdjustment item) * w"
    by (auto simp: renderEarrings_def Let_def split: option.splits dest!: try_draws_two)
  then show ?thesis
    using earring_scale_pos[OF assms(2) calculateDistance_nonneg, of a b] assms(1) by simp
qed

lemma necklace_size_pos:
  assumes "0 < w" "adjustment_ok item" "tp_face tp = Some face"
    and "reference_usable (js_at (f_landmarks face) 234) (js_at (f_landmarks face) 454)"
    and "renderNecklace r item tp w h = (r', Inr ds)" "d \<in> set ds"
  shows "0 < dc_size d"
proof -
  from assms(3,5,6)
  have "dc_size d = estimateShoulderWidth face * num_or (sizeAdjustment item) 1.0 * w"
    by (auto simp: renderNecklace_def Let_def split: option.splits dest!: try_draws_one)
  then show ?thesis
    using estimateShoulderWidth_pos[OF assms(4)] num_or_pos[OF assms(2), of 1] assms(1) by simp
qed

lemma ring_size_pos:
  assumes "0 < w" "adjustment_ok item" "choose_hand item tp = Some hand"
    and "reference_usable
           (js_at (h_landmarks hand) (max 0 (nat_or (fingerIndex item) 3 - 1) * 4 + 1))
           (js_at (h_landmarks hand) (min 4 (nat_or (fingerIndex item) 3 + 1) * 4 + 1))"
    and "renderRing r item tp w h = (r', Inr ds)" "d \<in> set ds"
  shows "0 < dc_size d"
proof -
  from assms(3,5,6)
  have "dc_size d = estimateFingerWidth hand (nat_or (fingerIndex item) 3)
                      * num_or (sizeAdjustment item) 1.5 * w"
    by (auto simp: renderRing_def Let_def split: option.splits dest!: try_draws_one)
  then show ?thesis
    using estimateFingerWidth_pos[OF assms(4)] num_or_pos[OF assms(2), of "1.5"] assms(1) by simp
qed

lemma bracelet_size_pos:
  assumes "0 < w" "adjustment_ok item" "choose_hand item tp = Some hand"
    and "reference_usable (js_at (h_landmarks hand) 1) (js_at (h_landmarks hand) 17)"
    and "renderBracelet r item tp w h = (r', Inr ds)" "d \<in> set ds"
  shows "0 < dc_size d"
proof -
  from assms(3,5,6)
  have "dc_size d = estimateWristWidth hand * num_or (sizeAdjustment item) 1.2 * w"
    by (auto simp: renderBracelet_def Let_def split: option.splits dest!: try_draws_one)
  then show ?thesis
    using estimateWristWidth_pos[OF assms(4)] num_or_pos[OF assms(2), of "1.2"] assms(1) by simp
qed

lemma watch_size_pos:
  assumes "0 < w" "adjustment_ok item" "choose_hand item tp = Some hand"
    and "reference_usable (js_at (h_landmarks hand) 1) (js_at (h_landmarks hand) 17)"
    and "renderWatch r item tp w h = (r', Inr ds)" "d \<in> set ds"
  shows "0 < dc_size d"
proof -
  from assms(3,5,6)
  have "dc_size d = estimateWristWidth hand * num_or (sizeAdjustment item) 1.5 * w"
    by (auto simp: renderWatch_def Let_def split: option.splits dest!: try_draws_one)
  then show ?thesis
    using estimateWristWidth_pos[OF assms(4)] num_or_pos[OF assms(2), of "1.5"] assms(1) by simp
qed

text \<open>What a render method draws once it has its anchor and the image is loaded.\<close>

lemma renderNecklace_emits:
  assumes "tp_face tp = Some face"
    and "getNeckPosition face = Some neckPoint"
    and "imageUrl item = Some url" "url \<noteq> []" "url \<in> textures r"
  shows "renderNecklace r item tp w h =
     (r\<lparr> sm_necklace := Some (smoothPosition (sm_necklace r) neckPoint (smoothingFactor r)) \<rparr>,
      Inr [\<lparr> dc_url = url,
             dc_x = px (smoothPosition (sm_necklace r) neckPoint (smoothingFactor r)) * w,
             dc_y = py (smoothPosition (sm_necklace r) neckPoint (smoothingFactor r)) * h,
             dc_size = estimateShoulderWidth face * num_or (sizeAdjustment item) 1.0 * w,
             dc_rotation = num_or (f_rotation face) 0 \<rparr>])"
  using assms
  by (simp add: renderNecklace_def Let_def draw_if_def truthy_str_def drawImageAtPoint_def)

lemma renderRing_emits:
  assumes "choose_hand item tp = Some hand"
    and "getFingerRingPosition hand (nat_or (fingerIndex item) 3) = Some fingerPoint"
    and "imageUrl item = Some url" "url \<noteq> []" "url \<in> textures r"
  shows "renderRing r item tp w h =
     (r\<lparr> sm_ring := Some (smoothPosition (sm_ring r) fingerPoint (smoothingFactor r)) \<rparr>,
      Inr [\<lparr> dc_url = url,
             dc_x = px (smoothPosition (sm_ring r) fingerPoint (smoothingFactor r)) * w,
             dc_y = py (smoothPosition (sm_ring r) fingerPoint (smoothingFactor r)) * h,
             dc_size = estimateFingerWidth hand (nat_or (fingerIndex item) 3)
                         * num_or (sizeAdjustment item) 1.5 * w,
             dc_rotation = calculateFingerRotation hand (nat_or (fingerIndex item) 3) \<rparr>])"
  using assms
  by (simp add: renderRing_def Let_def draw_if_def truthy_str_def drawImageAtPoint_def)

lemma renderBracelet_emits:
  assumes "choose_hand item tp = Some hand"
    and "getWristPosition hand = Some wristPoint"
    and "imageUrl item = Some url" "url \<noteq> []" "url \<in> textures r"
  shows "renderBracelet r item tp w h =
     (r\<lparr> sm_bracelet := Some (smoothPosition (sm_bracelet r) wristPoint (smoothingFactor r)) \<rparr>,
      Inr [\<lparr> dc_url = url,
             dc_x = px (smoothPosition (sm_bracelet r) wristPoint (smoothingFactor r)) * w,
             dc_y = py (smoothPosition (sm_bracelet r) wristPoint (smoothingFactor r)) * h,
             dc_size = estimateWristWidth hand * num_or (sizeAdjustment item) 1.2 * w,
             dc_rotation = calculateArmRotation hand \<rparr>])"
  using assms
  by (simp add: renderBracelet_def Let_def draw_if_def truthy_str_def drawImageAtPoint_def)

lemma renderWatch_emits:
  assumes "choose_hand item tp = Some hand"
    and "getWatchPosition hand = Some watchPoint"
    and "imageUrl item = Some url" "url \<noteq> []" "url \<in> textures r"
  shows "renderWatch r item tp w h =
     (r\<lparr> sm_watch := Some (smoothPosition (sm_watch r) watchPoint (smoothingFactor r)) \<rparr>,
      Inr [\<lparr> dc_url = url,
             dc_x = px (smoothPosition (sm_watch r) watchPoint (smoothingFactor r)) * w,
             dc_y = py (smoothPosition (sm_watch r) watchPoint (smoothingFactor r)) * h,
             dc_size = estimateWristWidth hand * num_or (sizeAdjustment item) 1.5 * w,
             dc_rotation = calculateArmRotation hand \<rparr>])"
  using assms
  by (simp add: renderWatch_def Let_def draw_if_def truthy_str_def drawImageAtPoint_def)

lemma atan2_diag: "0 < a \<Longrightarrow> atan2 a a = pi / 4"
  by (simp add: atan2_def arctan_one)

lemma is_finite_js_div: "b \<noteq> 0 \<Longrightarrow> is_finite (js_div a b)"
  by (simp add: js_div_def is_finite_def)

text \<open>The example inputs, evaluated.\<close>

lemma example_watch_extract:
  "hand_extractKeypoints example_watch_prediction = Inr example_watch_keypoints"
  by (simp add: hand_extractKeypoints_def example_watch_prediction_def hand_landmarks_def
      numeral_eq_Suc list_update_code handLandmarkNames_def z_or_0_def num_or_def
      add_ring_position_def add_bracelet_position_def add_watch_position_def
      example_watch_keypoints_def)

lemma example_face_at:
  "js_at (f_landmarks example_face) 27 = Some \<lparr> px = 0.4, py = 0.4, pz = 0 \<rparr>"
  "js_at (f_landmarks example_face) 33 = Some \<lparr> px = 0.6, py = 0.4, pz = 0 \<rparr>"
  "js_at (f_landmarks example_face) 152 = Some \<lparr> px = 0.5, py = 0.7, pz = 0 \<rparr>"
  "js_at (f_landmarks example_face) 234 = Some \<lparr> px = 0.3, py = 0.5, pz = 0 \<rparr>"
  "js_at (f_landmarks example_face) 454 = Some \<lparr> px = 0.7, py = 0.5, pz = 0 \<rparr>"
  "f_rotation example_face = None"
  by (simp_all add: example_face_def js_at_def js_nth_def)

lemma example_hand_at:
  "js_at (h_landmarks example_hand) 9 = Some \<lparr> px = 0, py = -10, pz = 0 \<rparr>"
  "js_at (h_landmarks example_hand) 13 = Some \<lparr> px = 0, py = 0, pz = 0 \<rparr>"
  "js_at (h_landmarks example_hand) 14 = Some \<lparr> px = 10, py = 0, pz = 0 \<rparr>"
  "js_at (h_landmarks example_hand) 16 = Some \<lparr> px = 30, py = 0, pz = 0 \<rparr>"
  "js_at (h_landmarks example_hand) 17 = Some \<lparr> px = 0, py = 10, pz = 0 \<rparr>"
  by (simp_all add: example_hand_def example_hand_landmarks_def js_at_def js_nth_def)

lemma bent_hand_at:
  "js_at (h_landmarks bent_hand) 13 = Some \<lparr> px = 0, py = 0, pz = 0 \<rparr>"
  "js_at (h_landmarks bent_hand) 14 = Some \<lparr> px = 10, py = 0, pz = 0 \<rparr>"
  "js_at (h_landmarks bent_hand) 16 = Some \<lparr> px = 10, py = 10, pz = 0 \<rparr>"
  by (simp_all add: bent_hand_def example_hand_landmarks_def js_at_def js_nth_def)

lemma chin_only_face_at:
  "js_at (f_landmarks chin_only_face) 152 = Some \<lparr> px = 0.5, py = 0.7, pz = 0 \<rparr>"
  "js_at (f_landmarks chin_only_face) 234 = None"
  "js_at (f_landmarks chin_only_face) 454 = None"
  "f_rotation chin_only_face = None"
  by (simp_all add: chin_only_face_def js_at_def js_nth_def)

lemma flat_face_at:
  "js_at (f_landmarks flat_face) 152 = Some \<lparr> px = 0.5, py = 0.7, pz = 0 \<rparr>"
  "js_at (f_landmarks flat_face) 234 = Some \<lparr> px = 0.5, py = 0.5, pz = 0 \<rparr>"
  "js_at (f_landmarks flat_face) 454 = Some \<lparr> px = 0.5, py = 0.5, pz = 0 \<rparr>"
  "f_rotation flat_face = None"
  by (simp_all add: flat_face_def js_at_def js_nth_def)

section \<open>Verified properties\<close>

subsection \<open>The temporal smoother\<close>

text \<open>
  C1. With a previous anchor value present, the smoother returns
  \<open>previous * \<alpha> + current * (1 - \<alpha>)\<close> on each of x, y and z independently,
  for every factor \<open>\<alpha>\<close> and so for the renderer's default 0.7; previous = 100 and
  current = 0 give exactly 70 in each component.
\<close>

theorem smoothPosition_blend:
  "smoothPosition (Some p) c a =
     \<lparr> px = px p * a + px c * (1 - a),
       py = py p * a + py c * (1 - a),
       pz = pz p * a + pz c * (1 - a) \<rparr>
   \<and> smoothPosition (Some p) c (smoothingFactor new_renderer) =
     \<lparr> px = px p * 0.7 + px c * (1 - 0.7),
       py = py p * 0.7 + py c * (1 - 0.7),
       pz = pz p * 0.7 + pz c * (1 - 0.7) \<rparr>
   \<and> smoothPosition (Some \<lparr> px = 100, py = 100, pz = 100 \<rparr>)
        \<lparr> px = 0, py = 0, pz = 0 \<rparr> (smoothingFactor new_renderer) =
     \<lparr> px = 70, py = 70, pz = 70 \<rparr>"
  by (simp add: smoothPosition_def new_renderer_def)

subsection \<open>The ring\<close>

text \<open>
  C2, as amended. For a hand whose landmark array has the configured finger's MCP and
  PIP (landmarks \<open>4f + 1\<close> and \<open>4f + 2\<close>), the canvas renderer's anchor
  candidate is \<open>0.3 * MCP + 0.7 * PIP\<close> in x, y and z; \<^verbatim>\<open>renderRing\<close>
  smooths it against the slot's cached position (a first observation passes through)
  and, with the item's image loaded, draws once at the smoothed anchor. The rotation is
  the \<open>atan2\<close> angle in degrees from the MCP to the fingertip (landmark
  \<open>4f + 4\<close>).
\<close>

theorem canvas_ring_transform:
  "(js_at (h_landmarks hand) (fi * 4 + 1) = Some baseJoint \<longrightarrow>
    js_at (h_landmarks hand) (fi * 4 + 2) = Some middleJoint \<longrightarrow>
    getFingerRingPosition hand fi =
      Some \<lparr> px = px baseJoint * 0.3 + px middleJoint * 0.7,
             py = py baseJoint * 0.3 + py middleJoint * 0.7,
             pz = pz baseJoint * 0.3 + pz middleJoint * 0.7 \<rparr>)
   \<and> (js_at (h_landmarks hand) (fi * 4 + 1) = Some baseJoint \<longrightarrow>
      js_at (h_landmarks hand) (fi * 4 + 4) = Some tipJoint \<longrightarrow>
      calculateFingerRotation hand fi =
        atan2 (py tipJoint - py baseJoint) (px tipJoint - px baseJoint) * (180 / pi))
   \<and> (choose_hand item tp = Some hand \<longrightarrow>
      getFingerRingPosition hand (nat_or (fingerIndex item) 3) = Some fingerPoint \<longrightarrow>
      imageUrl item = Some url \<longrightarrow> url \<noteq> [] \<longrightarrow> url \<in> textures r \<longrightarrow>
      renderRing r item tp w h =
        (r\<lparr> sm_ring := Some (smoothPosition (sm_ring r) fingerPoint (smoothingFactor r)) \<rparr>,
         Inr [\<lparr> dc_url = url,
                dc_x = px (smoothPosition (sm_ring r) fingerPoint (smoothingFactor r)) * w,
                dc_y = py (smoothPosition (sm_ring r) fingerPoint (smoothingFactor r)) * h,
                dc_size = estimateFingerWidth hand (nat_or (fingerIndex item) 3)
                            * num_or (sizeAdjustment item) 1.5 * w,
                dc_rotation = calculateFingerRotation hand (nat_or (fingerIndex item) 3) \<rparr>]))
   \<and> smoothPosition None fingerPoint a = fingerPoint"
proof (intro conjI impI)
  assume "js_at (h_landmarks hand) (fi * 4 + 1) = Some baseJoint"
    and "js_at (h_landmarks hand) (fi * 4 + 2) = Some middleJoint"
  then show "getFingerRingPosition hand fi =
      Some \<lparr> px = px baseJoint * 0.3 + px middleJoint * 0.7,
             py = py baseJoint * 0.3 + py middleJoint * 0.7,
             pz = pz baseJoint * 0.3 + pz middleJoint * 0.7 \<rparr>"
    by (simp add: getFingerRingPosition_def Let_def)
next
  assume "js_at (h_landmarks hand) (fi * 4 + 1) = Some baseJoint"
    and "js_at (h_landmarks hand) (fi * 4 + 4) = Some tipJoint"
  then show "calculateFingerRotation hand fi =
        atan2 (py tipJoint - py baseJoint) (px tipJoint - px baseJoint) * (180 / pi)"
    by (simp add: calculateFingerRotation_def Let_def)
next
  assume "choose_hand item tp = Some hand"
    and "getFingerRingPosition hand (nat_or (fingerIndex item) 3) = Some fingerPoint"
    and "imageUrl item = Some url" and "url \<noteq> []" and "url \<in> textures r"
  then show "renderRing r item tp w h =
        (r\<lparr> sm_ring := Some (smoothPosition (sm_ring r) fingerPoint (smoothingFactor r)) \<rparr>,
         Inr [\<lparr> dc_url = url,
                dc_x = px (smoothPosition (sm_ring r) fingerPoint (smoothingFactor r)) * w,
                dc_y = py (smoothPosition (sm_ring r) fingerPoint (smoothingFactor r)) * h,
                dc_size = estimateFingerWidth hand (nat_or (fingerIndex item) 3)
                            * num_or (sizeAdjustment item) 1.5 * w,
                dc_rotation = calculateFingerRotation hand (nat_or (fingerIndex item) 3) \<rparr>])"
    by (rule renderRing_emits)
next
  show "smoothPosition None fingerPoint a = fingerPoint"
    by (simp add: smoothPosition_def)
qed

text \<open>
  The right hand with MCP (0, 0), PIP (10, 0) and tip (30, 0), first seen by a renderer
  with the ring's image, on a video of size 1 by 1: anchor (7, 0), rotation 0.
\<close>

theorem canvas_ring_transform_witness:
  "renderRing ring_renderer example_ring frame_with_right_hand 1 1 =
     (ring_renderer\<lparr> sm_ring := Some \<lparr> px = 7, py = 0, pz = 0 \<rparr> \<rparr>,
      Inr [\<lparr> dc_url = ''ring.png'', dc_x = 7, dc_y = 0, dc_size = 8, dc_rotation = 0 \<rparr>])"
proof -
  have hand: "choose_hand example_ring frame_with_right_hand = Some example_hand"
    by (simp add: choose_hand_def example_ring_def frame_with_right_hand_def)
  have fi: "nat_or (fingerIndex example_ring) 3 = 3"
    by (simp add: nat_or_def example_ring_def)
  note T = canvas_ring_transform[where hand = example_hand and fi = 3
      and baseJoint = "\<lparr> px = 0, py = 0, pz = 0 \<rparr>"
      and middleJoint = "\<lparr> px = 10, py = 0, pz = 0 \<rparr>"
      and tipJoint = "\<lparr> px = 30, py = 0, pz = 0 \<rparr>"
      and item = example_ring and tp = frame_with_right_hand
      and fingerPoint = "\<lparr> px = 7, py = 0, pz = 0 \<rparr>"
      and url = "''ring.png''" and r = ring_renderer and w = 1 and h = 1]
  have pos: "getFingerRingPosition example_hand 3 = Some \<lparr> px = 7, py = 0, pz = 0 \<rparr>"
    using T[THEN conjunct1] by (simp add: example_hand_at)
  have rot: "calculateFingerRotation example_hand 3 = 0"
    using T[THEN conjunct2, THEN conjunct1] by (simp add: example_hand_at atan2_zero_pos)
  have width: "estimateFingerWidth example_hand 3 = 8"
    by (simp add: estimateFingerWidth_def example_hand_at calculateDistance_def)
  have "renderRing ring_renderer example_ring frame_with_right_hand 1 1 =
        (ring_renderer\<lparr> sm_ring := Some (smoothPosition (sm_ring ring_renderer)
             \<lparr> px = 7, py = 0, pz = 0 \<rparr> (smoothingFactor ring_renderer)) \<rparr>,
         Inr [\<lparr> dc_url = ''ring.png'',
                dc_x = px (smoothPosition (sm_ring ring_renderer)
                             \<lparr> px = 7, py = 0, pz = 0 \<rparr> (smoothingFactor ring_renderer)) * 1,
                dc_y = py (smoothPosition (sm_ring ring_renderer)
                             \<lparr> px = 7, py = 0, pz = 0 \<rparr> (smoothingFactor ring_renderer)) * 1,
                dc_size = estimateFingerWidth example_hand (nat_or (fingerIndex example_ring) 3)
                            * num_or (sizeAdjustment example_ring) 1.5 * 1,
                dc_rotation = calculateFingerRotation example_hand
                                (nat_or (fingerIndex example_ring) 3) \<rparr>])"
    using T[THEN conjunct2, THEN conjunct2, THEN conjunct1] hand pos fi
    by (simp add: example_ring_def ring_renderer_def)
  then show ?thesis
    by (simp add: nat_or_def rot width smoothPosition_def ring_renderer_def new_renderer_def
        num_or_def example_ring_def)
qed

text \<open>
  The specification's example puts the anchor at (3, 0) for MCP = (0, 0) and PIP = (10, 0);
  the renderer puts it at (7, 0). With the finger bent, MCP (0, 0), PIP (10, 0) and tip
  (10, 10), the angle from MCP to PIP is 0 and the renderer's rotation is 45.
\<close>

theorem ring_anchor_counterexample:
  "getFingerRingPosition example_hand 3 = Some \<lparr> px = 7, py = 0, pz = 0 \<rparr>
   \<and> getFingerRingPosition example_hand 3 \<noteq> Some \<lparr> px = 3, py = 0, pz = 0 \<rparr>
   \<and> snd (renderRing ring_renderer example_ring frame_with_right_hand 1 1) =
       Inr [\<lparr> dc_url = ''ring.png'', dc_x = 7, dc_y = 0, dc_size = 8, dc_rotation = 0 \<rparr>]
   \<and> atan2 (0 - 0) (10 - 0) * (180 / pi) = 0
   \<and> calculateFingerRotation bent_hand 3 = 45"
  by (simp add: renderRing_def choose_hand_def frame_with_right_hand_def example_ring_def
      nat_or_def getFingerRingPosition_def example_hand_at bent_hand_at smoothPosition_def
      ring_renderer_def new_renderer_def estimateFingerWidth_def calculateDistance_def
      num_or_def calculateFingerRotation_def atan2_zero_pos atan2_diag draw_if_def
      truthy_str_def drawImageAtPoint_def)

text \<open>
  The live view asks the keypoint set for the names \<open>3_mcp\<close> and \<open>3_pip\<close>
  (the finger's number, then the joint). The hand mapping names the same joints
  \<open>ring_finger_mcp\<close> and \<open>ring_finger_pip\<close>, so on the hands the detector
  delivers the live view finds neither and draws no ring.
\<close>

lemma names_not_numbered:
  "i < 21 \<Longrightarrow> handLandmarkNames ! i \<noteq> ''3_mcp''"
  "i < 21 \<Longrightarrow> handLandmarkNames ! i \<noteq> ''3_pip''"
  using nth_mem[of i handLandmarkNames]
  by (auto simp: handLandmarkNames_def)

lemma detector_names_not_numbered:
  assumes "hand_extractKeypoints p = Inr kp"
  shows "kp ''3_mcp'' = None \<and> kp ''3_pip'' = None"
  using assms names_not_numbered
  by (auto simp: hand_extractKeypoints_def add_watch_position_apply add_bracelet_position_apply
      add_ring_position_apply name_landmarks_other split: option.splits)

lemma processPredictions_keypoints:
  "processPredictions ps = Inr hands \<Longrightarrow> hand \<in> set hands
     \<Longrightarrow> \<exists>p kp. hand_extractKeypoints p = Inr kp \<and> dh_keypoints hand = Some kp"
proof (induction ps arbitrary: hands)
  case Nil
  then show ?case by simp
next
  case (Cons p ps)
  then show ?case
    by (fastforce simp: processPrediction_def split: sum.splits)
qed

lemma select_targetHand_mem:
  "select_targetHand item hs = Some hand \<Longrightarrow> hand \<in> set hs"
  by (auto simp: select_targetHand_def find_Some_iff split: if_splits option.splits)

lemma live_view_draws_no_ring:
  assumes "processPredictions ps = Inr hands" "item_type item = ''ring''"
    and "nat_or (fingerIndex item) 3 = 3"
  shows "drawHandItem hands item adj = []"
proof (cases "select_targetHand item hands")
  case None
  then show ?thesis by (simp add: drawHandItem_def)
next
  case (Some hand)
  from processPredictions_keypoints[OF assms(1) select_targetHand_mem[OF Some]]
  obtain p kp where "hand_extractKeypoints p = Inr kp" "dh_keypoints hand = Some kp"
    by blast
  with detector_names_not_numbered[of p kp] Some assms(2,3) show ?thesis
    by (simp add: drawHandItem_def string_of_nat.simps)
qed

subsection \<open>The watch\<close>

text \<open>
  The hand mapping derives \<open>watch_position\<close> as
  \<open>wrist * 0.8 + pinky_mcp * 0.2\<close> in each component whenever the keypoint set has
  the wrist and the pinky MCP, which it has as soon as the raw landmarks 0 and 17 are
  there.
\<close>

lemma watch_position_composite:
  "(hand_extractKeypoints prediction = Inr keypoints \<longrightarrow>
    keypoints ''wrist'' = Some wrist \<longrightarrow>
    keypoints ''pinky_mcp'' = Some pinky \<longrightarrow>
    keypoints ''watch_position'' =
      Some \<lparr> px = px wrist * 0.8 + px pinky * 0.2,
             py = py wrist * 0.8 + py pinky * 0.2,
             pz = pz wrist * 0.8 + pz pinky * 0.2 \<rparr>)
   \<and> (js_at (hand_landmarks prediction) 0 = Some l0 \<longrightarrow>
      js_at (hand_landmarks prediction) 17 = Some l17 \<longrightarrow>
      (\<exists>kp. hand_extractKeypoints prediction = Inr kp
         \<and> kp ''wrist'' = Some \<lparr> px = lx l0, py = ly l0, pz = z_or_0 l0 \<rparr>
         \<and> kp ''pinky_mcp'' = Some \<lparr> px = lx l17, py = ly l17, pz = z_or_0 l17 \<rparr>))"
proof (intro conjI impI)
  assume "hand_extractKeypoints prediction = Inr keypoints"
    and "keypoints ''wrist'' = Some wrist" and "keypoints ''pinky_mcp'' = Some pinky"
  then show "keypoints ''watch_position'' =
      Some \<lparr> px = px wrist * 0.8 + px pinky * 0.2,
             py = py wrist * 0.8 + py pinky * 0.2,
             pz = pz wrist * 0.8 + pz pinky * 0.2 \<rparr>"
    by (auto simp: hand_extractKeypoints_def add_watch_position_apply split: option.splits)
next
  assume a0: "js_at (hand_landmarks prediction) 0 = Some l0"
    and a17: "js_at (hand_landmarks prediction) 17 = Some l17"
  then obtain lms where lms: "hand_landmarks prediction = Some lms"
    by (cases "hand_landmarks prediction") (simp_all add: js_at_def)
  from a0 lms have i0: "0 < length lms" "lms ! 0 = Some l0"
    by (auto simp: js_at_def js_nth_def split: if_splits)
  from a17 lms have i17: "17 < length lms" "lms ! 17 = Some l17"
    by (auto simp: js_at_def js_nth_def split: if_splits)
  let ?base = "name_landmarks 0 lms Map.empty"
  have w: "?base ''wrist'' = Some \<lparr> px = lx l0, py = ly l0, pz = z_or_0 l0 \<rparr>"
    using name_landmarks_found[of 0 lms 0 l0 Map.empty] i0 by (simp add: raw_names)
  have q: "?base ''pinky_mcp'' = Some \<lparr> px = lx l17, py = ly l17, pz = z_or_0 l17 \<rparr>"
    using name_landmarks_found[of 17 lms 0 l17 Map.empty] i17 by (simp add: raw_names)
  show "\<exists>kp. hand_extractKeypoints prediction = Inr kp
         \<and> kp ''wrist'' = Some \<lparr> px = lx l0, py = ly l0, pz = z_or_0 l0 \<rparr>
         \<and> kp ''pinky_mcp'' = Some \<lparr> px = lx l17, py = ly l17, pz = z_or_0 l17 \<rparr>"
    using lms w q
    by (simp add: hand_extractKeypoints_def add_watch_position_apply
        add_bracelet_position_apply add_ring_position_apply)
qed

text \<open>
  C3, evaluated on the specification's scenario. The detector makes of the right hand
  with wrist (0.5, 0.8, 0) and pinky MCP (0.6, 0.75, 0) a hand object whose keypoint set
  holds the composite \<open>watch_position\<close> (0.52, 0.79, 0); the live view, asked for
  a watch with the left hand preferred, falls back to this hand and draws the watch at
  the wrist (0.5, 0.8), not at the composite.
\<close>

theorem watch_drawn_at_wrist:
  "processPrediction example_watch_prediction = Inr example_watch_hand
   \<and> dh_keypoints example_watch_hand = Some example_watch_keypoints
   \<and> example_watch_keypoints ''watch_position'' = Some \<lparr> px = 0.52, py = 0.79, pz = 0 \<rparr>
   \<and> drawHandItem [example_watch_hand] example_watch adj0 =
       [\<lparr> img_url = ''watch.png'', img_x = 0.5, img_y = 0.8, img_scale = Finite 1,
          img_rotation = Finite 0, img_xOffset = 0, img_yOffset = 0 \<rparr>]"
proof -
  have lm: "js_at (hand_landmarks example_watch_prediction) 5 = None"
       "js_at (hand_landmarks example_watch_prediction) 9 = None"
    by (simp_all add: example_watch_prediction_def hand_landmarks_def js_at_def js_nth_def)
  have m: "calculateHandMeasurements example_watch_prediction = default_measurements"
    using lm by (simp add: calculateHandMeasurements_def measurements_try_def split: option.splits)
  have ori: "calculateHandOrientation example_watch_prediction = default_orientation"
    using lm by (simp add: calculateHandOrientation_def orientation_try_def split: option.splits)
  have "processPrediction example_watch_prediction = Inr example_watch_hand"
    by (simp add: processPrediction_def example_watch_extract m ori example_watch_hand_def)
       (simp add: example_watch_prediction_def hand_landmarks_def)
  moreover have "drawHandItem [example_watch_hand] example_watch adj0 =
       [\<lparr> img_url = ''watch.png'', img_x = 0.5, img_y = 0.8, img_scale = Finite 1,
          img_rotation = Finite 0, img_xOffset = 0, img_yOffset = 0 \<rparr>]"
    by (simp add: drawHandItem_def select_targetHand_def example_watch_hand_def
        example_watch_def example_watch_keypoints_def adj0_def truthy_str_def item_scale_def
        wrist_rotation_def default_orientation_def)
  ultimately show ?thesis
    by (simp add: example_watch_hand_def example_watch_keypoints_def)
qed

subsection \<open>Hand selection\<close>

text \<open>
  The live view's choice of hand: the first hand of the preferred handedness when there
  is one, and the first detected hand otherwise.
\<close>

lemma select_targetHand_left:
  "preferredHand item = Some ''left'' \<Longrightarrow>
   select_targetHand item hs =
     (case find (\<lambda>hand. dh_handedness hand = ''Left'') hs of
        Some hand \<Rightarrow> Some hand
      | None \<Rightarrow> (case hs of [] \<Rightarrow> None | first # others \<Rightarrow> Some first))"
  by (auto simp: select_targetHand_def split: option.splits list.splits)

text \<open>
  C4, evaluated on the canvas renderer. With \<^verbatim>\<open>preferredHand\<close> set to
  \<open>left\<close> and no left hand among the tracking points, the three hand renderers
  return at once, whatever right hand was detected: nothing is drawn and the cache is
  not touched.
\<close>

theorem left_preference_without_fallback:
  "renderRing r (item\<lparr> preferredHand := Some ''left'' \<rparr>) (tp\<lparr> tp_leftHand := None \<rparr>) w h
     = (r, Inr [])
   \<and> renderBracelet r (item\<lparr> preferredHand := Some ''left'' \<rparr>) (tp\<lparr> tp_leftHand := None \<rparr>) w h
     = (r, Inr [])
   \<and> renderWatch r (item\<lparr> preferredHand := Some ''left'' \<rparr>) (tp\<lparr> tp_leftHand := None \<rparr>) w h
     = (r, Inr [])"
  by (simp add: renderRing_def renderBracelet_def renderWatch_def choose_hand_def)

subsection \<open>The neck base\<close>

text \<open>
  C5, as amended. When the face keypoint set has both ears, \<open>neckBase\<close> has the
  mean of the ears' x and of their z, and for y the larger of the ears' y plus the
  constant 50.
\<close>

theorem neckBase_derivation:
  "kp_read (face_extractKeypoints prediction) ''leftEar'' = Some leftEar \<longrightarrow>
   kp_read (face_extractKeypoints prediction) ''rightEar'' = Some rightEar \<longrightarrow>
   kp_read (face_extractKeypoints prediction) ''neckBase'' =
     Some \<lparr> px = (px leftEar + px rightEar) / 2,
            py = max (py leftEar) (py rightEar) + 50,
            pz = (pz leftEar + pz rightEar) / 2 \<rparr>"
  by (auto simp: face_extractKeypoints_def add_neckBase_def kp_read_def
      split: option.splits if_splits)

lemma ears_200_keypoints:
  "kp_read (face_extractKeypoints ears_200) ''leftEar'' = Some \<lparr> px = 100, py = 150, pz = 0 \<rparr>"
  "kp_read (face_extractKeypoints ears_200) ''rightEar'' = Some \<lparr> px = 300, py = 150, pz = 0 \<rparr>"
  by (simp_all add: face_extractKeypoints_def face_landmarks_def ears_200_def js_nth_def
      point_or_def add_neckBase_def kp_read_def)

theorem neckBase_derivation_witness:
  "kp_read (face_extractKeypoints ears_200) ''neckBase'' = Some \<lparr> px = 200, py = 200, pz = 0 \<rparr>"
  using neckBase_derivation[where prediction = ears_200
      and leftEar = "\<lparr> px = 100, py = 150, pz = 0 \<rparr>"
      and rightEar = "\<lparr> px = 300, py = 150, pz = 0 \<rparr>"]
    ears_200_keypoints
  by simp

text \<open>
  Ears 200 apart and ears 100 apart, at height 150: the neck base is 50 below in both,
  a quarter of the one distance and half of the other.
\<close>

theorem neckBase_fraction_counterexample:
  "kp_read (face_extractKeypoints ears_200) ''neckBase'' = Some \<lparr> px = 200, py = 200, pz = 0 \<rparr>
   \<and> calculateDistance \<lparr> px = 100, py = 150, pz = 0 \<rparr> \<lparr> px = 300, py = 150, pz = 0 \<rparr> = 200
   \<and> kp_read (face_extractKeypoints ears_100) ''neckBase'' = Some \<lparr> px = 150, py = 200, pz = 0 \<rparr>
   \<and> calculateDistance \<lparr> px = 100, py = 150, pz = 0 \<rparr> \<lparr> px = 200, py = 150, pz = 0 \<rparr> = 100
   \<and> (200 - 150) / (200 :: real) \<noteq> (200 - 150) / 100"
  by (simp add: face_extractKeypoints_def face_landmarks_def ears_200_def ears_100_def
      js_nth_def point_or_def add_neckBase_def calculateDistance_def kp_read_def)

subsection \<open>Frames without a detection\<close>

text \<open>
  C6, as amended. On a frame without the face (for earrings and necklace) or without a
  hand (for ring, bracelet and watch) the renderer draws nothing and returns its state
  as it was: the cached position of the slot is kept, not reset, and not handed out.
  On a frame with a detection the new cached position is the detected point smoothed
  against the cached one, however many frames ago that was written.
\<close>

theorem no_detection_keeps_cache:
  "renderEarrings r item (tp\<lparr> tp_face := None \<rparr>) w h = (r, Inr [])
   \<and> renderNecklace r item (tp\<lparr> tp_face := None \<rparr>) w h = (r, Inr [])
   \<and> renderRing r item (tp\<lparr> tp_leftHand := None, tp_rightHand := None \<rparr>) w h = (r, Inr [])
   \<and> renderBracelet r item (tp\<lparr> tp_leftHand := None, tp_rightHand := None \<rparr>) w h = (r, Inr [])
   \<and> renderWatch r item (tp\<lparr> tp_leftHand := None, tp_rightHand := None \<rparr>) w h = (r, Inr [])
   \<and> (tp_face tp = Some face \<longrightarrow>
      getLeftEarringPosition face = Some leftEarPoint \<longrightarrow>
      getRightEarringPosition face = Some rightEarPoint \<longrightarrow>
      sm_earrings_left (fst (renderEarrings r item tp w h)) =
        Some (smoothPosition (sm_earrings_left r) leftEarPoint (smoothingFactor r))
      \<and> sm_earrings_right (fst (renderEarrings r item tp w h)) =
        Some (smoothPosition (sm_earrings_right r) rightEarPoint (smoothingFactor r)))
   \<and> (tp_face tp = Some face \<longrightarrow>
      getNeckPosition face = Some neckPoint \<longrightarrow>
      sm_necklace (fst (renderNecklace r item tp w h)) =
        Some (smoothPosition (sm_necklace r) neckPoint (smoothingFactor r)))
   \<and> (choose_hand item tp = Some hand \<longrightarrow>
      getFingerRingPosition hand (nat_or (fingerIndex item) 3) = Some fingerPoint \<longrightarrow>
      sm_ring (fst (renderRing r item tp w h)) =
        Some (smoothPosition (sm_ring r) fingerPoint (smoothingFactor r)))
   \<and> (choose_hand item tp = Some hand \<longrightarrow>
      getWristPosition hand = Some wristPoint \<longrightarrow>
      sm_bracelet (fst (renderBracelet r item tp w h)) =
        Some (smoothPosition (sm_bracelet r) wristPoint (smoothingFactor r)))
   \<and> (choose_hand item tp = Some hand \<longrightarrow>
      getWatchPosition hand = Some watchPoint \<longrightarrow>
      sm_watch (fst (renderWatch r item tp w h)) =
        Some (smoothPosition (sm_watch r) watchPoint (smoothingFactor r)))"
  by (auto simp: renderEarrings_def renderNecklace_def renderRing_def renderBracelet_def
      renderWatch_def choose_hand_def Let_def split: option.splits)

lemma example_frame_1:
  "renderEarrings example_renderer example_earrings frame_with_face 640 480 =
     (example_renderer\<lparr> sm_earrings_left := Some \<lparr> px = 0.3, py = 0.5, pz = 0 \<rparr>,
                         sm_earrings_right := Some \<lparr> px = 0.7, py = 0.5, pz = 0 \<rparr> \<rparr>,
      Inr [\<lparr> dc_url = ''left.png'', dc_x = 192, dc_y = 240, dc_size = 128, dc_rotation = 0 \<rparr>,
           \<lparr> dc_url = ''right.png'', dc_x = 448, dc_y = 240, dc_size = 128, dc_rotation = 0 \<rparr>])"
  by (simp add: renderEarrings_def frame_with_face_def getLeftEarringPosition_def
      getRightEarringPosition_def example_face_at smoothPosition_def example_renderer_def
      new_renderer_def calculateDistance_def example_earrings_def draw_if_def truthy_str_def
      drawImageAtPoint_def num_or_def earring_scale_def)

text \<open>
  Frame 1 with a face, frame 2 without, frame 3 with the face moved by 0.1: the left
  earring's cached x goes from 0.3 to \<open>0.3 * 0.7 + 0.4 * 0.3 = 0.33\<close>.
\<close>

theorem no_detection_keeps_cache_witness:
  "sm_earrings_left
     (fst (renderEarrings
        (fst (renderEarrings
           (fst (renderEarrings example_renderer example_earrings frame_with_face 640 480))
           example_earrings frame_without_face 640 480))
        example_earrings frame_with_moved_face 640 480))
   = Some \<lparr> px = 0.33, py = 0.5, pz = 0 \<rparr>"
proof -
  let ?r1 = "fst (renderEarrings example_renderer example_earrings frame_with_face 640 480)"
  let ?r2 = "fst (renderEarrings ?r1 example_earrings frame_without_face 640 480)"
  have r2: "?r2 = ?r1"
    using no_detection_keeps_cache[THEN conjunct1, of ?r1 example_earrings frame_without_face 640 480]
    by (simp add: frame_without_face_def)
  have r1: "sm_earrings_left ?r1 = Some \<lparr> px = 0.3, py = 0.5, pz = 0 \<rparr>"
       "smoothingFactor ?r1 = 0.7"
    unfolding example_frame_1 by (simp_all add: example_renderer_def new_renderer_def)
  have face: "tp_face frame_with_moved_face = Some moved_face"
    by (simp add: frame_with_moved_face_def)
  have ears: "getLeftEarringPosition moved_face = Some \<lparr> px = 0.4, py = 0.5, pz = 0 \<rparr>"
       "getRightEarringPosition moved_face = Some \<lparr> px = 0.8, py = 0.5, pz = 0 \<rparr>"
    by (simp_all add: getLeftEarringPosition_def getRightEarringPosition_def moved_face_def
        js_at_def js_nth_def)
  note resume = no_detection_keeps_cache[THEN conjunct2, THEN conjunct2, THEN conjunct2,
      THEN conjunct2, THEN conjunct2, THEN conjunct1, rule_format, OF face ears, THEN conjunct1,
      of ?r2 example_earrings 640 480]
  show ?thesis
    unfolding resume unfolding r2 by (simp add: r1 smoothPosition_def)
qed

text \<open>
  Frame 1 with a face draws both earrings; frame 2 without a face, from the state frame
  1 left, draws nothing.
\<close>

theorem occlusion_counterexample:
  "renderEarrings example_renderer example_earrings frame_with_face 640 480 =
     (example_renderer\<lparr> sm_earrings_left := Some \<lparr> px = 0.3, py = 0.5, pz = 0 \<rparr>,
                         sm_earrings_right := Some \<lparr> px = 0.7, py = 0.5, pz = 0 \<rparr> \<rparr>,
      Inr [\<lparr> dc_url = ''left.png'', dc_x = 192, dc_y = 240, dc_size = 128, dc_rotation = 0 \<rparr>,
           \<lparr> dc_url = ''right.png'', dc_x = 448, dc_y = 240, dc_size = 128, dc_rotation = 0 \<rparr>])
   \<and> snd (renderEarrings
            (fst (renderEarrings example_renderer example_earrings frame_with_face 640 480))
            example_earrings frame_without_face 640 480) = Inr []"
proof -
  have "snd (renderEarrings r example_earrings frame_without_face 640 480) = Inr []" for r
    by (simp add: renderEarrings_def frame_without_face_def)
  with example_frame_1 show ?thesis by simp
qed

subsection \<open>Short, empty and absent landmark arrays\<close>

text \<open>
  C7, as amended. The hand mapping of a landmark array, however short, returns a
  keypoint set without throwing, in which every name whose index is past the end is
  absent, and so are the derived points that need such a name; the empty array gives
  the empty set. The face mapping gives the empty set for an absent and for an empty
  array; for a short one every name both of whose indices are past the end holds
  \<open>undefined\<close>, and the neck base, which needs both ears, is absent.
\<close>

theorem keypoint_mapping_partial:
  "(hand_landmarks p = Some lms \<longrightarrow>
      (\<exists>kp. hand_extractKeypoints p = Inr kp
         \<and> (\<forall>i. length lms \<le> i \<longrightarrow> i < 21 \<longrightarrow> kp (handLandmarkNames ! i) = None)
         \<and> (length lms \<le> 14 \<longrightarrow> kp ''ring_position'' = None)
         \<and> (length lms \<le> 17 \<longrightarrow> kp ''watch_position'' = None)
         \<and> (lms = [] \<longrightarrow> kp = Map.empty)))
   \<and> (face_landmarks fp = None \<or> face_landmarks fp = Some [] \<longrightarrow>
        face_extractKeypoints fp = Map.empty)
   \<and> (face_landmarks fp = Some flms \<longrightarrow>
        (length flms \<le> 93 \<longrightarrow> 0 < length flms \<longrightarrow> face_extractKeypoints fp ''leftEar'' = Some None)
      \<and> (length flms \<le> 323 \<longrightarrow> 0 < length flms \<longrightarrow> face_extractKeypoints fp ''rightEar'' = Some None)
      \<and> (length flms \<le> 33 \<longrightarrow> 0 < length flms \<longrightarrow> face_extractKeypoints fp ''leftEye'' = Some None)
      \<and> (length flms \<le> 263 \<longrightarrow> 0 < length flms \<longrightarrow> face_extractKeypoints fp ''rightEye'' = Some None)
      \<and> (length flms \<le> 1 \<longrightarrow> 0 < length flms \<longrightarrow> face_extractKeypoints fp ''noseTip'' = Some None)
      \<and> (length flms \<le> 14 \<longrightarrow> 0 < length flms \<longrightarrow> face_extractKeypoints fp ''lowerLip'' = Some None)
      \<and> (length flms \<le> 323 \<longrightarrow> face_extractKeypoints fp ''neckBase'' = None))"
proof (intro conjI)
  show "hand_landmarks p = Some lms \<longrightarrow>
      (\<exists>kp. hand_extractKeypoints p = Inr kp
         \<and> (\<forall>i. length lms \<le> i \<longrightarrow> i < 21 \<longrightarrow> kp (handLandmarkNames ! i) = None)
         \<and> (length lms \<le> 14 \<longrightarrow> kp ''ring_position'' = None)
         \<and> (length lms \<le> 17 \<longrightarrow> kp ''watch_position'' = None)
         \<and> (lms = [] \<longrightarrow> kp = Map.empty))"
  proof
    assume lms: "hand_landmarks p = Some lms"
    let ?base = "name_landmarks 0 lms Map.empty"
    let ?kp = "add_watch_position (add_bracelet_position (add_ring_position ?base))"
    have kp: "hand_extractKeypoints p = Inr ?kp"
      using lms by (simp add: hand_extractKeypoints_def)
    have raw: "?kp (handLandmarkNames ! i) = None" if "length lms \<le> i" "i < 21" for i
      using named_absent[OF that] derived_not_raw[OF that(2)]
      by (simp add: add_watch_position_apply add_bracelet_position_apply add_ring_position_apply)
    have ring: "?kp ''ring_position'' = None" if "length lms \<le> 14"
      using named_absent[of lms 14] that derived_unnamed[of lms]
      by (simp add: add_watch_position_apply add_bracelet_position_apply
          add_ring_position_apply raw_names split: option.splits)
    have watch: "?kp ''watch_position'' = None" if "length lms \<le> 17"
      using named_absent[of lms 17] that derived_unnamed[of lms]
      by (simp add: add_watch_position_apply add_bracelet_position_apply
          add_ring_position_apply raw_names split: option.splits)
    have empty: "?kp = Map.empty" if "lms = []"
      using that
      by (simp add: add_watch_position_def add_bracelet_position_def add_ring_position_def)
    show "\<exists>kp. hand_extractKeypoints p = Inr kp
         \<and> (\<forall>i. length lms \<le> i \<longrightarrow> i < 21 \<longrightarrow> kp (handLandmarkNames ! i) = None)
         \<and> (length lms \<le> 14 \<longrightarrow> kp ''ring_position'' = None)
         \<and> (length lms \<le> 17 \<longrightarrow> kp ''watch_position'' = None)
         \<and> (lms = [] \<longrightarrow> kp = Map.empty)"
      using kp raw ring watch empty by blast
  qed
next
  show "face_landmarks fp = None \<or> face_landmarks fp = Some [] \<longrightarrow>
        face_extractKeypoints fp = Map.empty"
    by (auto simp: face_extractKeypoints_def)
next
  show "face_landmarks fp = Some flms \<longrightarrow>
        (length flms \<le> 93 \<longrightarrow> 0 < length flms \<longrightarrow> face_extractKeypoints fp ''leftEar'' = Some None)
      \<and> (length flms \<le> 323 \<longrightarrow> 0 < length flms \<longrightarrow> face_extractKeypoints fp ''rightEar'' = Some None)
      \<and> (length flms \<le> 33 \<longrightarrow> 0 < length flms \<longrightarrow> face_extractKeypoints fp ''leftEye'' = Some None)
      \<and> (length flms \<le> 263 \<longrightarrow> 0 < length flms \<longrightarrow> face_extractKeypoints fp ''rightEye'' = Some None)
      \<and> (length flms \<le> 1 \<longrightarrow> 0 < length flms \<longrightarrow> face_extractKeypoints fp ''noseTip'' = Some None)
      \<and> (length flms \<le> 14 \<longrightarrow> 0 < length flms \<longrightarrow> face_extractKeypoints fp ''lowerLip'' = Some None)
      \<and> (length flms \<le> 323 \<longrightarrow> face_extractKeypoints fp ''neckBase'' = None)"
    by (auto simp: face_extractKeypoints_def add_neckBase_def js_nth_short point_or_def
        kp_read_def split: option.splits)
qed

text \<open>A hand prediction with two landmarks: no thumb MCP, no pinky tip, no ring or watch position.\<close>

theorem keypoint_mapping_partial_witness:
  "\<exists>kp. hand_extractKeypoints short_prediction = Inr kp
      \<and> kp ''thumb_mcp'' = None \<and> kp ''pinky_tip'' = None
      \<and> kp ''ring_position'' = None \<and> kp ''watch_position'' = None"
proof -
  have lms: "hand_landmarks short_prediction =
      Some [Some \<lparr> lx = 0.5, ly = 0.8, lz = Some 0 \<rparr>, Some \<lparr> lx = 0.4, ly = 0.7, lz = None \<rparr>]"
    by (simp add: hand_landmarks_def short_prediction_def)
  from keypoint_mapping_partial[THEN conjunct1, rule_format, OF lms]
  obtain kp where kp: "hand_extractKeypoints short_prediction = Inr kp"
    and raw: "\<And>i. 2 \<le> i \<Longrightarrow> i < 21 \<Longrightarrow> kp (handLandmarkNames ! i) = None"
    and ring: "kp ''ring_position'' = None" and watch: "kp ''watch_position'' = None"
    by auto
  have "kp ''thumb_mcp'' = None" using raw[of 2] by (simp add: handLandmarkNames_def)
  moreover have "kp ''pinky_tip'' = None" using raw[of 20] by (simp add: handLandmarkNames_def)
  ultimately show ?thesis using kp ring watch by blast
qed

text \<open>An empty hand landmark array and an absent face landmark array: a set comes back, the empty one.\<close>

theorem empty_landmarks_counterexample:
  "hand_extractKeypoints empty_prediction = Inr Map.empty
   \<and> face_extractKeypoints absent_face_prediction = Map.empty"
  by (simp add: hand_extractKeypoints_def hand_landmarks_def empty_prediction_def
      add_watch_position_def add_bracelet_position_def add_ring_position_def
      face_extractKeypoints_def face_landmarks_def absent_face_prediction_def)

subsection \<open>The scale of a drawn item\<close>

text \<open>
  C8, as amended. With a positive video width and a size adjustment that is missing or
  not negative, every image the canvas renderer draws has a size above 0: for earrings
  always, and for the other four categories whenever the two landmarks the scale
  estimate measures between are not one and the same point. When one of these
  landmarks is missing, the estimate is a fixed positive default (0.3 for the
  shoulders, 0.02 for a finger, 0.1 for the wrist), and the item is drawn all the same:
  once its anchor is found and its image is loaded, necklace, ring, bracelet and watch
  are drawn exactly once, with the size \<open>estimate * adjustment * width\<close>,
  whatever the estimate. Landmarks have all of x, y and z.
\<close>

theorem drawn_size_positive:
  "(0 < w \<longrightarrow> adjustment_ok item \<longrightarrow>
    renderEarrings r item tp w h = (r', Inr ds) \<longrightarrow> d \<in> set ds \<longrightarrow> 0 < dc_size d)
   \<and> (0 < w \<longrightarrow> adjustment_ok item \<longrightarrow> tp_face tp = Some face \<longrightarrow>
      reference_usable (js_at (f_landmarks face) 234) (js_at (f_landmarks face) 454) \<longrightarrow>
      renderNecklace r item tp w h = (r', Inr ds) \<longrightarrow> d \<in> set ds \<longrightarrow> 0 < dc_size d)
   \<and> (0 < w \<longrightarrow> adjustment_ok item \<longrightarrow> choose_hand item tp = Some hand \<longrightarrow>
      reference_usable
        (js_at (h_landmarks hand) (max 0 (nat_or (fingerIndex item) 3 - 1) * 4 + 1))
        (js_at (h_landmarks hand) (min 4 (nat_or (fingerIndex item) 3 + 1) * 4 + 1)) \<longrightarrow>
      renderRing r item tp w h = (r', Inr ds) \<longrightarrow> d \<in> set ds \<longrightarrow> 0 < dc_size d)
   \<and> (0 < w \<longrightarrow> adjustment_ok item \<longrightarrow> choose_hand item tp = Some hand \<longrightarrow>
      reference_usable (js_at (h_landmarks hand) 1) (js_at (h_landmarks hand) 17) \<longrightarrow>
      renderBracelet r item tp w h = (r', Inr ds) \<longrightarrow> d \<in> set ds \<longrightarrow> 0 < dc_size d)
   \<and> (0 < w \<longrightarrow> adjustment_ok item \<longrightarrow> choose_hand item tp = Some hand \<longrightarrow>
      reference_usable (js_at (h_landmarks hand) 1) (js_at (h_landmarks hand) 17) \<longrightarrow>
      renderWatch r item tp w h = (r', Inr ds) \<longrightarrow> d \<in> set ds \<longrightarrow> 0 < dc_size d)
   \<and> (js_at (f_landmarks face) 234 = None \<or> js_at (f_landmarks face) 454 = None \<longrightarrow>
      estimateShoulderWidth face = 0.3)
   \<and> (js_at (h_landmarks hand) (max 0 (fi - 1) * 4 + 1) = None
        \<or> js_at (h_landmarks hand) (min 4 (fi + 1) * 4 + 1) = None \<longrightarrow>
      estimateFingerWidth hand fi = 0.02)
   \<and> (js_at (h_landmarks hand) 1 = None \<or> js_at (h_landmarks hand) 17 = None \<longrightarrow>
      estimateWristWidth hand = 0.1)
   \<and> (tp_face tp = Some face \<longrightarrow> getNeckPosition face = Some neckPoint \<longrightarrow>
      imageUrl item = Some url \<longrightarrow> url \<noteq> [] \<longrightarrow> url \<in> textures r \<longrightarrow>
      renderNecklace r item tp w h =
        (r\<lparr> sm_necklace := Some (smoothPosition (sm_necklace r) neckPoint (smoothingFactor r)) \<rparr>,
         Inr [\<lparr> dc_url = url,
                dc_x = px (smoothPosition (sm_necklace r) neckPoint (smoothingFactor r)) * w,
                dc_y = py (smoothPosition (sm_necklace r) neckPoint (smoothingFactor r)) * h,
                dc_size = estimateShoulderWidth face * num_or (sizeAdjustment item) 1.0 * w,
                dc_rotation = num_or (f_rotation face) 0 \<rparr>]))
   \<and> (choose_hand item tp = Some hand \<longrightarrow>
      getFingerRingPosition hand (nat_or (fingerIndex item) 3) = Some fingerPoint \<longrightarrow>
      imageUrl item = Some url \<longrightarrow> url \<noteq> [] \<longrightarrow> url \<in> textures r \<longrightarrow>
      renderRing r item tp w h =
        (r\<lparr> sm_ring := Some (smoothPosition (sm_ring r) fingerPoint (smoothingFactor r)) \<rparr>,
         Inr [\<lparr> dc_url = url,
                dc_x = px (smoothPosition (sm_ring r) fingerPoint (smoothingFactor r)) * w,
                dc_y = py (smoothPosition (sm_ring r) fingerPoint (smoothingFactor r)) * h,
                dc_size = estimateFingerWidth hand (nat_or (fingerIndex item) 3)
                            * num_or (sizeAdjustment item) 1.5 * w,
                dc_rotation = calculateFingerRotation hand (nat_or (fingerIndex item) 3) \<rparr>]))
   \<and> (choose_hand item tp = Some hand \<longrightarrow> getWristPosition hand = Some wristPoint \<longrightarrow>
      imageUrl item = Some url \<longrightarrow> url \<noteq> [] \<longrightarrow> url \<in> textures r \<longrightarrow>
      renderBracelet r item tp w h =
        (r\<lparr> sm_bracelet := Some (smoothPosition (sm_bracelet r) wristPoint (smoothingFactor r)) \<rparr>,
         Inr [\<lparr> dc_url = url,
                dc_x = px (smoothPosition (sm_bracelet r) wristPoint (smoothingFactor r)) * w,
                dc_y = py (smoothPosition (sm_bracelet r) wristPoint (smoothingFactor r)) * h,
                dc_size = estimateWristWidth hand * num_or (sizeAdjustment item) 1.2 * w,
                dc_rotation = calculateArmRotation hand \<rparr>]))
   \<and> (choose_hand item tp = Some hand \<longrightarrow> getWatchPosition hand = Some watchPoint \<longrightarrow>
      imageUrl item = Some url \<longrightarrow> url \<noteq> [] \<longrightarrow> url \<in> textures r \<longrightarrow>
      renderWatch r item tp w h =
        (r\<lparr> sm_watch := Some (smoothPosition (sm_watch r) watchPoint (smoothingFactor r)) \<rparr>,
         Inr [\<lparr> dc_url = url,
                dc_x = px (smoothPosition (sm_watch r) watchPoint (smoothingFactor r)) * w,
                dc_y = py (smoothPosition (sm_watch r) watchPoint (smoothingFactor r)) * h,
                dc_size = estimateWristWidth hand * num_or (sizeAdjustment item) 1.5 * w,
                dc_rotation = calculateArmRotation hand \<rparr>]))"
proof (intro conjI)
  show "0 < w \<longrightarrow> adjustment_ok item \<longrightarrow>
    renderEarrings r item tp w h = (r', Inr ds) \<longrightarrow> d \<in> set ds \<longrightarrow> 0 < dc_size d"
    using earrings_size_pos by blast
  show "0 < w \<longrightarrow> adjustment_ok item \<longrightarrow> tp_face tp = Some face \<longrightarrow>
      reference_usable (js_at (f_landmarks face) 234) (js_at (f_landmarks face) 454) \<longrightarrow>
      renderNecklace r item tp w h = (r', Inr ds) \<longrightarrow> d \<in> set ds \<longrightarrow> 0 < dc_size d"
    using necklace_size_pos by blast
  show "0 < w \<longrightarrow> adjustment_ok item \<longrightarrow> choose_hand item tp = Some hand \<longrightarrow>
      reference_usable
        (js_at (h_landmarks hand) (max 0 (nat_or (fingerIndex item) 3 - 1) * 4 + 1))
        (js_at (h_landmarks hand) (min 4 (nat_or (fingerIndex item) 3 + 1) * 4 + 1)) \<longrightarrow>
      renderRing r item tp w h = (r', Inr ds) \<longrightarrow> d \<in> set ds \<longrightarrow> 0 < dc_size d"
    using ring_size_pos by blast
  show "0 < w \<longrightarrow> adjustment_ok item \<longrightarrow> choose_hand item tp = Some hand \<longrightarrow>
      reference_usable (js_at (h_landmarks hand) 1) (js_at (h_landmarks hand) 17) \<longrightarrow>
      renderBracelet r item tp w h = (r', Inr ds) \<longrightarrow> d \<in> set ds \<longrightarrow> 0 < dc_size d"
    using bracelet_size_pos by blast
  show "0 < w \<longrightarrow> adjustment_ok item \<longrightarrow> choose_hand item tp = Some hand \<longrightarrow>
      reference_usable (js_at (h_landmarks hand) 1) (js_at (h_landmarks hand) 17) \<longrightarrow>
      renderWatch r item tp w h = (r', Inr ds) \<longrightarrow> d \<in> set ds \<longrightarrow> 0 < dc_size d"
    using watch_size_pos by blast
  show "js_at (f_landmarks face) 234 = None \<or> js_at (f_landmarks face) 454 = None \<longrightarrow>
      estimateShoulderWidth face = 0.3"
    by (auto simp: estimateShoulderWidth_def split: option.splits)
  show "js_at (h_landmarks hand) (max 0 (fi - 1) * 4 + 1) = None
        \<or> js_at (h_landmarks hand) (min 4 (fi + 1) * 4 + 1) = None \<longrightarrow>
      estimateFingerWidth hand fi = 0.02"
    by (auto simp: estimateFingerWidth_def Let_def split: option.splits)
  show "js_at (h_landmarks hand) 1 = None \<or> js_at (h_landmarks hand) 17 = None \<longrightarrow>
      estimateWristWidth hand = 0.1"
    by (auto simp: estimateWristWidth_def split: option.splits)
  show "tp_face tp = Some face \<longrightarrow> getNeckPosition face = Some neckPoint \<longrightarrow>
      imageUrl item = Some url \<longrightarrow> url \<noteq> [] \<longrightarrow> url \<in> textures r \<longrightarrow>
      renderNecklace r item tp w h =
        (r\<lparr> sm_necklace := Some (smoothPosition (sm_necklace r) neckPoint (smoothingFactor r)) \<rparr>,
         Inr [\<lparr> dc_url = url,
                dc_x = px (smoothPosition (sm_necklace r) neckPoint (smoothingFactor r)) * w,
                dc_y = py (smoothPosition (sm_necklace r) neckPoint (smoothingFactor r)) * h,
                dc_size = estimateShoulderWidth face * num_or (sizeAdjustment item) 1.0 * w,
                dc_rotation = num_or (f_rotation face) 0 \<rparr>])"
    using renderNecklace_emits by blast
  show "choose_hand item tp = Some hand \<longrightarrow>
      getFingerRingPosition hand (nat_or (fingerIndex item) 3) = Some fingerPoint \<longrightarrow>
      imageUrl item = Some url \<longrightarrow> url \<noteq> [] \<longrightarrow> url \<in> textures r \<longrightarrow>
      renderRing r item tp w h =
        (r\<lparr> sm_ring := Some (smoothPosition (sm_ring r) fingerPoint (smoothingFactor r)) \<rparr>,
         Inr [\<lparr> dc_url = url,
                dc_x = px (smoothPosition (sm_ring r) fingerPoint (smoothingFactor r)) * w,
                dc_y = py (smoothPosition (sm_ring r) fingerPoint (smoothingFactor r)) * h,
                dc_size = estimateFingerWidth hand (nat_or (fingerIndex item) 3)
                            * num_or (sizeAdjustment item) 1.5 * w,
                dc_rotation = calculateFingerRotation hand (nat_or (fingerIndex item) 3) \<rparr>])"
    using renderRing_emits by blast
  show "choose_hand item tp = Some hand \<longrightarrow> getWristPosition hand = Some wristPoint \<longrightarrow>
      imageUrl item = Some url \<longrightarrow> url \<noteq> [] \<longrightarrow> url \<in> textures r \<longrightarrow>
      renderBracelet r item tp w h =
        (r\<lparr> sm_bracelet := Some (smoothPosition (sm_bracelet r) wristPoint (smoothingFactor r)) \<rparr>,
         Inr [\<lparr> dc_url = url,
                dc_x = px (smoothPosition (sm_bracelet r) wristPoint (smoothingFactor r)) * w,
                dc_y = py (smoothPosition (sm_bracelet r) wristPoint (smoothingFactor r)) * h,
                dc_size = estimateWristWidth hand * num_or (sizeAdjustment item) 1.2 * w,
                dc_rotation = calculateArmRotation hand \<rparr>])"
    using renderBracelet_emits by blast
  show "choose_hand item tp = Some hand \<longrightarrow> getWatchPosition hand = Some watchPoint \<longrightarrow>
      imageUrl item = Some url \<longrightarrow> url \<noteq> [] \<longrightarrow> url \<in> textures r \<longrightarrow>
      renderWatch r item tp w h =
        (r\<lparr> sm_watch := Some (smoothPosition (sm_watch r) watchPoint (smoothingFactor r)) \<rparr>,
         Inr [\<lparr> dc_url = url,
                dc_x = px (smoothPosition (sm_watch r) watchPoint (smoothingFactor r)) * w,
                dc_y = py (smoothPosition (sm_watch r) watchPoint (smoothingFactor r)) * h,
                dc_size = estimateWristWidth hand * num_or (sizeAdjustment item) 1.5 * w,
                dc_rotation = calculateArmRotation hand \<rparr>])"
    using renderWatch_emits by blast
qed

lemma example_necklace_drawn:
  "renderNecklace example_renderer example_necklace frame_with_face 640 480 =
     (example_renderer\<lparr> sm_necklace := Some \<lparr> px = 0.5, py = 0.8, pz = 0 \<rparr> \<rparr>,
      Inr [\<lparr> dc_url = ''necklace.png'', dc_x = 320, dc_y = 384, dc_size = 768,
             dc_rotation = 0 \<rparr>])"
  by (simp add: renderNecklace_def frame_with_face_def getNeckPosition_def example_face_at
      smoothPosition_def example_renderer_def new_renderer_def estimateShoulderWidth_def
      calculateDistance_def example_necklace_def draw_if_def truthy_str_def
      drawImageAtPoint_def num_or_def)

text \<open>
  A necklace on a face with the cheeks 0.4 apart, on a video 640 wide: size 768. The
  same necklace on a face of which only the chin was found: drawn with the default
  shoulder width, size \<open>0.3 * 1 * 640 = 192\<close>.
\<close>

theorem drawn_size_positive_witness:
  "snd (renderNecklace example_renderer example_necklace frame_with_face 640 480) =
     Inr [\<lparr> dc_url = ''necklace.png'', dc_x = 320, dc_y = 384, dc_size = 768, dc_rotation = 0 \<rparr>]
   \<and> 0 < dc_size \<lparr> dc_url = ''necklace.png'', dc_x = 320, dc_y = 384, dc_size = 768,
                   dc_rotation = 0 \<rparr>
   \<and> renderNecklace example_renderer example_necklace frame_with_chin_only 640 480 =
       (example_renderer\<lparr> sm_necklace := Some \<lparr> px = 0.5, py = 0.8, pz = 0 \<rparr> \<rparr>,
        Inr [\<lparr> dc_url = ''necklace.png'', dc_x = 320, dc_y = 384, dc_size = 192,
               dc_rotation = 0 \<rparr>])"
proof -
  have ok: "adjustment_ok example_necklace"
    by (simp add: adjustment_ok_def example_necklace_def)
  have face: "tp_face frame_with_face = Some example_face"
    by (simp add: frame_with_face_def)
  have usable: "reference_usable (js_at (f_landmarks example_face) 234)
                                 (js_at (f_landmarks example_face) 454)"
    by (simp add: reference_usable_def example_face_at)
  have pos: "0 < dc_size \<lparr> dc_url = ''necklace.png'', dc_x = 320, dc_y = 384, dc_size = 768,
                      dc_rotation = 0 \<rparr>"
    using drawn_size_positive[THEN conjunct2, THEN conjunct1, rule_format,
        of 640 example_necklace frame_with_face example_face example_renderer 480,
        OF _ ok face usable example_necklace_drawn]
    by simp
  have chin: "tp_face frame_with_chin_only = Some chin_only_face"
    by (simp add: frame_with_chin_only_def)
  have neck: "getNeckPosition chin_only_face = Some \<lparr> px = 0.5, py = 0.8, pz = 0 \<rparr>"
    by (simp add: getNeckPosition_def chin_only_face_at)
  have url: "imageUrl example_necklace = Some ''necklace.png''" "''necklace.png'' \<noteq> []"
       "''necklace.png'' \<in> textures example_renderer"
    by (simp_all add: example_necklace_def example_renderer_def)
  note T = drawn_size_positive[where face = chin_only_face and tp = frame_with_chin_only
      and item = example_necklace and r = example_renderer and w = 640 and h = 480
      and neckPoint = "\<lparr> px = 0.5, py = 0.8, pz = 0 \<rparr>" and url = "''necklace.png''"]
  have dflt: "estimateShoulderWidth chin_only_face = 0.3"
    using T[THEN conjunct2, THEN conjunct2, THEN conjunct2, THEN conjunct2, THEN conjunct2,
        THEN conjunct1]
    by (simp add: chin_only_face_at)
  have drawn: "renderNecklace example_renderer example_necklace frame_with_chin_only 640 480 =
       (example_renderer\<lparr> sm_necklace := Some (smoothPosition (sm_necklace example_renderer)
            \<lparr> px = 0.5, py = 0.8, pz = 0 \<rparr> (smoothingFactor example_renderer)) \<rparr>,
        Inr [\<lparr> dc_url = ''necklace.png'',
               dc_x = px (smoothPosition (sm_necklace example_renderer)
                            \<lparr> px = 0.5, py = 0.8, pz = 0 \<rparr> (smoothingFactor example_renderer)) * 640,
               dc_y = py (smoothPosition (sm_necklace example_renderer)
                            \<lparr> px = 0.5, py = 0.8, pz = 0 \<rparr> (smoothingFactor example_renderer)) * 480,
               dc_size = estimateShoulderWidth chin_only_face
                           * num_or (sizeAdjustment example_necklace) 1.0 * 640,
               dc_rotation = num_or (f_rotation chin_only_face) 0 \<rparr>])"
    using T[THEN conjunct2, THEN conjunct2, THEN conjunct2, THEN conjunct2, THEN conjunct2,
        THEN conjunct2, THEN conjunct2, THEN conjunct2, THEN conjunct1, rule_format,
        OF chin neck url] .
  have "renderNecklace example_renderer example_necklace frame_with_chin_only 640 480 =
       (example_renderer\<lparr> sm_necklace := Some \<lparr> px = 0.5, py = 0.8, pz = 0 \<rparr> \<rparr>,
        Inr [\<lparr> dc_url = ''necklace.png'', dc_x = 320, dc_y = 384, dc_size = 192,
               dc_rotation = 0 \<rparr>])"
    unfolding drawn dflt
    by (simp add: smoothPosition_def example_renderer_def new_renderer_def num_or_def
        example_necklace_def chin_only_face_at)
  with pos example_necklace_drawn show ?thesis by simp
qed

text \<open>
  A face whose two cheek landmarks coincide: the necklace is drawn, with size 0.
\<close>

theorem zero_scale_counterexample:
  "snd (renderNecklace example_renderer example_necklace frame_with_flat_face 640 480) =
     Inr [\<lparr> dc_url = ''necklace.png'', dc_x = 320, dc_y = 384, dc_size = 0, dc_rotation = 0 \<rparr>]"
  by (simp add: renderNecklace_def frame_with_flat_face_def getNeckPosition_def flat_face_at
      smoothPosition_def example_renderer_def new_renderer_def estimateShoulderWidth_def
      calculateDistance_def example_necklace_def draw_if_def truthy_str_def
      drawImageAtPoint_def num_or_def)

subsection \<open>Normalising a vector\<close>

text \<open>
  C9. \<^verbatim>\<open>normalizeVector\<close> returns the zero vector for the zero vector, and for
  every vector of finite numbers each component of the result is a finite number,
  neither \<open>NaN\<close> nor an infinity: the division is reached with a magnitude other
  than 0 only.
\<close>

theorem normalizeVector_finite:
  "normalizeVector \<lparr> px = 0, py = 0, pz = 0 \<rparr> = \<lparr> vx = Finite 0, vy = Finite 0, vz = Finite 0 \<rparr>
   \<and> is_finite (vx (normalizeVector v))
   \<and> is_finite (vy (normalizeVector v))
   \<and> is_finite (vz (normalizeVector v))"
  by (simp add: normalizeVector_def Let_def is_finite_js_div) (simp add: is_finite_def)

subsection \<open>Hand measurements and orientation\<close>

text \<open>
  C10. \<^verbatim>\<open>calculateHandMeasurements\<close> and \<^verbatim>\<open>calculateHandOrientation\<close>
  return a value for every prediction. Their \<^verbatim>\<open>try\<close> blocks throw exactly
  when one of the landmarks they read (17, 5, 0, 12, and 9 for the orientation) is
  missing, be it a missing entry, an array that is too short or no array at all, and the
  result is then the fixed default: palm width, hand length and finger dimensions 0,
  pitch, yaw and roll 0, and the unit vectors (0, 1, 0), (0, 1, 0) and (1, 0, 0).
\<close>

theorem hand_postprocessing_defaults:
  "((measurements_try (hand_landmarks p) = Inl TypeError) =
      (js_at (hand_landmarks p) 17 = None \<or> js_at (hand_landmarks p) 5 = None
       \<or> js_at (hand_landmarks p) 0 = None \<or> js_at (hand_landmarks p) 12 = None))
   \<and> ((\<exists>e. measurements_try (hand_landmarks p) = Inl e) \<longrightarrow>
        calculateHandMeasurements p = default_measurements)
   \<and> ((orientation_try (hand_landmarks p) = Inl TypeError) =
      (js_at (hand_landmarks p) 0 = None \<or> js_at (hand_landmarks p) 9 = None
       \<or> js_at (hand_landmarks p) 12 = None \<or> js_at (hand_landmarks p) 5 = None
       \<or> js_at (hand_landmarks p) 17 = None))
   \<and> ((\<exists>e. orientation_try (hand_landmarks p) = Inl e) \<longrightarrow>
        calculateHandOrientation p = default_orientation)
   \<and> (hand_landmarks p = None \<or> (\<exists>lms. hand_landmarks p = Some lms \<and> length lms \<le> 17) \<longrightarrow>
        calculateHandMeasurements p = default_measurements
        \<and> calculateHandOrientation p = default_orientation)
   \<and> m_palmWidth default_measurements = 0
   \<and> m_handLength default_measurements = 0
   \<and> m_wristCircumference default_measurements = 0
   \<and> fd_width (fm_index (m_fingerMeasurements default_measurements)) = 0
   \<and> fd_length (fm_index (m_fingerMeasurements default_measurements)) = 0
   \<and> fd_width (fm_middle (m_fingerMeasurements default_measurements)) = 0
   \<and> fd_length (fm_middle (m_fingerMeasurements default_measurements)) = 0
   \<and> fd_width (fm_ring (m_fingerMeasurements default_measurements)) = 0
   \<and> fd_length (fm_ring (m_fingerMeasurements default_measurements)) = 0
   \<and> fd_width (fm_pinky (m_fingerMeasurements default_measurements)) = 0
   \<and> fd_length (fm_pinky (m_fingerMeasurements default_measurements)) = 0
   \<and> angles default_orientation = \<lparr> pitch = Finite 0, yaw = Finite 0, roll = Finite 0 \<rparr>
   \<and> palmDirection (vectors default_orientation) = \<lparr> vx = Finite 0, vy = Finite 1, vz = Finite 0 \<rparr>
   \<and> fingerDirection (vectors default_orientation) = \<lparr> vx = Finite 0, vy = Finite 1, vz = Finite 0 \<rparr>
   \<and> palmNormal (vectors default_orientation) = \<lparr> vx = Finite 1, vy = Finite 0, vz = Finite 0 \<rparr>"
proof -
  have m_iff: "(measurements_try (hand_landmarks p) = Inl TypeError) =
      (js_at (hand_landmarks p) 17 = None \<or> js_at (hand_landmarks p) 5 = None
       \<or> js_at (hand_landmarks p) 0 = None \<or> js_at (hand_landmarks p) 12 = None)"
    by (auto simp: measurements_try_def Let_def split: option.splits)
  have m_def: "(\<exists>e. measurements_try (hand_landmarks p) = Inl e) \<longrightarrow>
        calculateHandMeasurements p = default_measurements"
    by (auto simp: calculateHandMeasurements_def)
  have o_iff: "(orientation_try (hand_landmarks p) = Inl TypeError) =
      (js_at (hand_landmarks p) 0 = None \<or> js_at (hand_landmarks p) 9 = None
       \<or> js_at (hand_landmarks p) 12 = None \<or> js_at (hand_landmarks p) 5 = None
       \<or> js_at (hand_landmarks p) 17 = None)"
    by (auto simp: orientation_try_def Let_def split: option.splits)
  have o_def: "(\<exists>e. orientation_try (hand_landmarks p) = Inl e) \<longrightarrow>
        calculateHandOrientation p = default_orientation"
    by (auto simp: calculateHandOrientation_def)
  have short: "hand_landmarks p = None \<or> (\<exists>lms. hand_landmarks p = Some lms \<and> length lms \<le> 17) \<longrightarrow>
        calculateHandMeasurements p = default_measurements
        \<and> calculateHandOrientation p = default_orientation"
  proof
    assume "hand_landmarks p = None \<or> (\<exists>lms. hand_landmarks p = Some lms \<and> length lms \<le> 17)"
    then have "js_at (hand_landmarks p) 17 = None"
      by (auto simp: js_at_def js_nth_def)
    with m_iff o_iff m_def o_def
    show "calculateHandMeasurements p = default_measurements
        \<and> calculateHandOrientation p = default_orientation"
      by blast
  qed
  show ?thesis
    using m_iff m_def o_iff o_def short
    by (simp add: default_measurements_def default_orientation_def)
qed

text \<open>A prediction with two landmarks only gets both defaults.\<close>

theorem hand_postprocessing_defaults_witness:
  "calculateHandMeasurements short_prediction = default_measurements
   \<and> calculateHandOrientation short_prediction = default_orientation"
proof -
  have "hand_landmarks short_prediction = None
        \<or> (\<exists>lms. hand_landmarks short_prediction = Some lms \<and> length lms \<le> 17)"
    by (simp add: hand_landmarks_def short_prediction_def)
  with hand_postprocessing_defaults[of short_prediction] show ?thesis
    by blast
qed

end
